theory Spec2Isabelle
  imports Main
begin

section \<open>Values shared by the services\<close>

text \<open>
  The body of an HTTP response, as far as the code reads it: the token fields of
  \<open>AuthResult\<close> and \<open>TokenPair\<close>, the id of the \<open>user\<close> object of \<open>AuthResult\<close>,
  and the rest of the document as an opaque string. A field the body does not carry
  (\<open>undefined\<close> in JavaScript) is \<open>None\<close>.
\<close>

record ResponseData =
  d_accessToken :: "string option"
  d_refreshToken :: "string option"
  d_user_id :: "string option"
  d_rest :: string

datatype http_method = GET | POST | PATCH | DELETE

text \<open>
  An axios request config: method, url, the JSON body as a key/value list, the
  \<open>Authorization\<close> header and the \<open>_retry\<close> mark that the response interceptor sets.
\<close>

record request =
  req_method :: http_method
  url :: string
  body :: "(string \<times> string) list"
  Authorization :: "string option"
  retry :: bool

text \<open>
  What the network gives back for a request: a response with its status and body, or
  no response at all (connection failure, timeout).
\<close>

datatype http_outcome = Response nat ResponseData | NoResponse

text \<open>
  Thrown values: the error with which axios rejects (\<open>error.response\<close>, absent when no
  response arrived, and \<open>error.config\<close>), and \<open>new Error(message)\<close>.
\<close>

datatype err =
    AxiosError "(nat \<times> ResponseData) option" request
  | Error string

text \<open>\<open>error.response?.status\<close>\<close>

fun response_status :: "err \<Rightarrow> nat option" where
  "response_status (AxiosError (Some (status, d)) config) = Some status"
| "response_status (AxiosError None config) = None"
| "response_status (Error msg) = None"

text \<open>Truthiness of a \<open>string | null\<close> value: \<open>null\<close> and the empty string are falsy.\<close>

fun truthy :: "string option \<Rightarrow> bool" where
  "truthy None = False"
| "truthy (Some s) = (s \<noteq> [])"

text \<open>A \<open>string | undefined\<close> value inside a template literal.\<close>

fun template :: "string option \<Rightarrow> string" where
  "template None = ''undefined''"
| "template (Some s) = s"

section \<open>Configuration and backend facade: \<open>src/config/index.ts\<close>, \<open>src/services/backend/index.ts\<close>\<close>

text \<open>
  The environment variables that \<open>src/config/index.ts\<close> imports from \<open>@env\<close>, as far
  as the facade depends on them. A variable that is not set is \<open>undefined\<close>, here \<open>None\<close>.
\<close>

record env =
  BACKEND_TYPE :: "string option"
  API_BASE_URL :: "string option"
  WS_URL :: "string option"
  FIREBASE_API_KEY :: "string option"
  FIREBASE_AUTH_DOMAIN :: "string option"
  FIREBASE_PROJECT_ID :: "string option"
  FIREBASE_STORAGE_BUCKET :: "string option"
  FIREBASE_MESSAGING_SENDER_ID :: "string option"
  FIREBASE_APP_ID :: "string option"

text \<open>
  \<open>AppConfig\<close> and \<open>FirebaseConfig\<close> are the interfaces of the global type file;
  only the fields that \<open>getBackendService\<close> reads are kept in \<open>AppConfig\<close>.
  An optional field (\<open>firebase?: FirebaseConfig\<close>) is an \<open>option\<close>. The fields of
  \<open>FirebaseConfig\<close> are copied from the environment unchecked, so each can be
  \<open>undefined\<close>. \<open>backendType\<close> is a string at run time (the cast \<open>as BackendType\<close>
  checks nothing).
\<close>

record FirebaseConfig =
  apiKey :: "string option"
  authDomain :: "string option"
  projectId :: "string option"
  storageBucket :: "string option"
  messagingSenderId :: "string option"
  appId :: "string option"

record AppConfig =
  backendType :: string
  apiBaseUrl :: string
  wsUrl :: string
  firebase :: "FirebaseConfig option"

text \<open>\<open>x || fallback\<close> for a \<open>string | undefined\<close> value \<open>x\<close>.\<close>

definition or_else :: "string option \<Rightarrow> string \<Rightarrow> string" where
  "or_else x fallback = (if truthy x then template x else fallback)"

text \<open>
  The constants \<open>firebaseConfig\<close> and \<open>config\<close> of \<open>src/config/index.ts\<close>, as functions
  of the environment. \<open>firebaseConfig\<close> is an object exactly when \<open>BACKEND_TYPE\<close> is
  \<open>firebase\<close>, whatever the \<open>FIREBASE_*\<close> variables hold.
\<close>

definition firebaseConfig :: "env \<Rightarrow> FirebaseConfig option" where
  "firebaseConfig e =
     (if BACKEND_TYPE e = Some ''firebase'' then
        Some \<lparr>apiKey = FIREBASE_API_KEY e, authDomain = FIREBASE_AUTH_DOMAIN e,
              projectId = FIREBASE_PROJECT_ID e, storageBucket = FIREBASE_STORAGE_BUCKET e,
              messagingSenderId = FIREBASE_MESSAGING_SENDER_ID e, appId = FIREBASE_APP_ID e\<rparr>
      else None)"

definition app_config :: "env \<Rightarrow> AppConfig" where
  "app_config e =
     \<lparr>backendType = or_else (BACKEND_TYPE e) ''custom'',
      apiBaseUrl = or_else (API_BASE_URL e) ''http://localhost:3000/v1'',
      wsUrl = or_else (WS_URL e) ''ws://localhost:3000/ws'',
      firebase = firebaseConfig e\<rparr>"

text \<open>
  The firebase kind selected and none of its connection parameters set.
\<close>

definition env_firebase_unset :: env where
  "env_firebase_unset =
     \<lparr>BACKEND_TYPE = Some ''firebase'', API_BASE_URL = None, WS_URL = None,
      FIREBASE_API_KEY = None, FIREBASE_AUTH_DOMAIN = None, FIREBASE_PROJECT_ID = None,
      FIREBASE_STORAGE_BUCKET = None, FIREBASE_MESSAGING_SENDER_ID = None,
      FIREBASE_APP_ID = None\<rparr>"

text \<open>The two classes that implement \<open>IBackendService\<close>, with their constructor arguments.\<close>

datatype IBackendService =
    FirebaseBackendService FirebaseConfig
  | CustomBackendService string string

text \<open>
  The module variable \<open>backendServiceInstance\<close> is passed in and returned.
  A \<open>throw\<close> is \<open>Inl\<close>; the assignment to the variable happens only on the
  branches that reach it.
\<close>

definition getBackendService ::
  "AppConfig \<Rightarrow> IBackendService option \<Rightarrow> (err + IBackendService) \<times> IBackendService option" where
  "getBackendService config backendServiceInstance =
     (case backendServiceInstance of
        Some b \<Rightarrow> (Inr b, backendServiceInstance)
      | None \<Rightarrow>
          if backendType config = ''firebase'' then
            (case firebase config of
               None \<Rightarrow> (Inl (Error ''Firebase configuration is missing''), backendServiceInstance)
             | Some fc \<Rightarrow> (Inr (FirebaseBackendService fc), Some (FirebaseBackendService fc)))
          else
            (Inr (CustomBackendService (apiBaseUrl config) (wsUrl config)),
             Some (CustomBackendService (apiBaseUrl config) (wsUrl config))))"

definition resetBackendService :: "IBackendService option \<Rightarrow> IBackendService option" where
  "resetBackendService backendServiceInstance = None"

section \<open>Custom backend: \<open>CustomBackendService\<close>, \<open>CustomAuthService\<close>, \<open>CustomDatabaseService\<close>\<close>

text \<open>
  The mutable state one \<open>CustomBackendService\<close> owns: the two private fields of its
  \<open>CustomAuthService\<close>, and \<open>wire\<close>, the requests that were handed to the network so
  far, oldest first (each exactly as it left, after the request interceptor).
\<close>

record backend_state =
  accessToken :: "string option"
  refreshTokenValue :: "string option"
  wire :: "request list"

text \<open>
  The remote side: its answer to a request may depend on every request sent before.
\<close>

type_synonym server = "request list \<Rightarrow> request \<Rightarrow> http_outcome"

text \<open>The request interceptor: attach the current access token when there is one.\<close>

definition onRequest :: "backend_state \<Rightarrow> request \<Rightarrow> request" where
  "onRequest st config =
     (let token = accessToken st
      in if truthy token then config\<lparr>Authorization := Some (''Bearer '' @ template token)\<rparr>
         else config)"

definition refresh_request :: "string \<Rightarrow> request" where
  "refresh_request rt =
     \<lparr>req_method = POST, url = ''/auth/refresh'', body = [(''refreshToken'', rt)],
      Authorization = None, retry = False\<rparr>"

definition logout_request :: request where
  "logout_request =
     \<lparr>req_method = POST, url = ''/auth/logout'', body = [], Authorization = None, retry = False\<rparr>"

text \<open>
  The axios instance of \<open>createApiClient\<close> with both interceptors, and the two methods
  of \<open>CustomAuthService\<close> that the response interceptor calls; these call the instance
  again, so the four functions are mutually recursive. Nothing in the code bounds this
  recursion (a refresh request that is itself answered 401 starts another refresh), so
  the first argument is fuel: the number of nested calls allowed. \<open>None\<close> means the
  fuel ran out; \<open>Some (Inl e, st)\<close> is a rejected promise, \<open>Some (Inr v, st)\<close> a
  fulfilled one, \<open>st\<close> the state afterwards.

  \<^item> \<open>apiClient\<close>: request interceptor, network, then \<open>response => response\<close> for a
    status in 200..299 and the rejection handler otherwise (axios' default
    \<open>validateStatus\<close>).
  \<^item> \<open>onRejected\<close>: the \<open>async error => ...\<close> handler. \<open>return client(originalRequest)\<close>
    is not awaited inside the \<open>try\<close>, so a rejection of the retried request is not
    caught there; a rejection of \<open>this.auth.logout()\<close> inside the \<open>catch\<close> replaces
    \<open>refreshError\<close>.
  \<^item> \<open>refreshToken\<close>, \<open>logout\<close>: as in \<open>CustomAuthService\<close>; \<open>finally\<close> clears the
    tokens whether or not the logout request succeeded.
\<close>

fun apiClient :: "nat \<Rightarrow> server \<Rightarrow> backend_state \<Rightarrow> request
                    \<Rightarrow> ((err + ResponseData) \<times> backend_state) option"
and onRejected :: "nat \<Rightarrow> server \<Rightarrow> backend_state \<Rightarrow> (nat \<times> ResponseData) option \<Rightarrow> request
                    \<Rightarrow> ((err + ResponseData) \<times> backend_state) option"
and refreshToken :: "nat \<Rightarrow> server \<Rightarrow> backend_state \<Rightarrow> string
                    \<Rightarrow> ((err + ResponseData) \<times> backend_state) option"
and logout :: "nat \<Rightarrow> server \<Rightarrow> backend_state \<Rightarrow> ((err + unit) \<times> backend_state) option"
where
  "apiClient 0 srv st req = None"
| "apiClient (Suc n) srv st req =
     (let config = onRequest st req;
          st1 = st\<lparr>wire := wire st @ [config]\<rparr>
      in case srv (wire st) config of
           Response status d \<Rightarrow>
             if 200 \<le> status \<and> status < 300 then Some (Inr d, st1)
             else onRejected n srv st1 (Some (status, d)) config
         | NoResponse \<Rightarrow> onRejected n srv st1 None config)"
| "onRejected 0 srv st response originalRequest = None"
| "onRejected (Suc n) srv st response originalRequest =
     (if map_option fst response = Some 401 \<and> \<not> retry originalRequest then
        (let originalRequest = originalRequest\<lparr>retry := True\<rparr>;
             rt = refreshTokenValue st
         in if truthy rt then
              (case refreshToken n srv st (template rt) of
                 None \<Rightarrow> None
               | Some (Inr d, st2) \<Rightarrow>
                   apiClient n srv st2
                     (originalRequest\<lparr>Authorization := Some (''Bearer '' @ template (d_accessToken d))\<rparr>)
               | Some (Inl refreshError, st2) \<Rightarrow>
                   (case logout n srv st2 of
                      None \<Rightarrow> None
                    | Some (Inl logoutError, st3) \<Rightarrow> Some (Inl logoutError, st3)
                    | Some (Inr u, st3) \<Rightarrow> Some (Inl refreshError, st3)))
            else Some (Inl (AxiosError response originalRequest), st))
      else Some (Inl (AxiosError response originalRequest), st))"
| "refreshToken 0 srv st rt = None"
| "refreshToken (Suc n) srv st rt =
     (case apiClient n srv st (refresh_request rt) of
        None \<Rightarrow> None
      | Some (Inl e, st1) \<Rightarrow> Some (Inl e, st1)
      | Some (Inr d, st1) \<Rightarrow>
          Some (Inr d, st1\<lparr>accessToken := d_accessToken d, refreshTokenValue := d_refreshToken d\<rparr>))"
| "logout 0 srv st = None"
| "logout (Suc n) srv st =
     (case apiClient n srv st logout_request of
        None \<Rightarrow> None
      | Some (Inl e, st1) \<Rightarrow> Some (Inl e, st1\<lparr>accessToken := None, refreshTokenValue := None\<rparr>)
      | Some (Inr d, st1) \<Rightarrow> Some (Inr (), st1\<lparr>accessToken := None, refreshTokenValue := None\<rparr>))"

text \<open>\<open>CustomAuthService.verifyOTP\<close>: the two assignments follow the awaited post.\<close>

record OTPVerifyInput =
  phone :: string
  code :: string

definition verify_request :: "OTPVerifyInput \<Rightarrow> request" where
  "verify_request input =
     \<lparr>req_method = POST, url = ''/auth/otp/verify'',
      body = [(''phone'', phone input), (''code'', code input)],
      Authorization = None, retry = False\<rparr>"

definition verifyOTP :: "nat \<Rightarrow> server \<Rightarrow> backend_state \<Rightarrow> OTPVerifyInput
                           \<Rightarrow> ((err + ResponseData) \<times> backend_state) option" where
  "verifyOTP n srv st input =
     (case apiClient n srv st (verify_request input) of
        None \<Rightarrow> None
      | Some (Inl e, st1) \<Rightarrow> Some (Inl e, st1)
      | Some (Inr d, st1) \<Rightarrow>
          Some (Inr d, st1\<lparr>accessToken := d_accessToken d, refreshTokenValue := d_refreshToken d\<rparr>))"

text \<open>
  \<open>CustomDatabaseService.getById\<close>: \<open>null\<close> is \<open>None\<close> in the result; the \<open>catch\<close>
  turns a rejection whose response has status 404 into \<open>null\<close> and rethrows any other.
\<close>

definition getById_request :: "string \<Rightarrow> string \<Rightarrow> request" where
  "getById_request collection ident =
     \<lparr>req_method = GET, url = ''/'' @ collection @ ''/'' @ ident, body = [],
      Authorization = None, retry = False\<rparr>"

definition getById :: "nat \<Rightarrow> server \<Rightarrow> backend_state \<Rightarrow> string \<Rightarrow> string
                         \<Rightarrow> ((err + ResponseData option) \<times> backend_state) option" where
  "getById n srv st collection ident =
     (case apiClient n srv st (getById_request collection ident) of
        None \<Rightarrow> None
      | Some (Inr d, st1) \<Rightarrow> Some (Inr (Some d), st1)
      | Some (Inl e, st1) \<Rightarrow>
          if response_status e = Some 404 then Some (Inr None, st1) else Some (Inl e, st1))"

text \<open>
  What one request gives when it is sent exactly once and its outcome is handed to the
  caller as it is: the request interceptor, one entry on the wire, the body of a
  200..299 response or else the axios error of that response. The token fields of the
  state are not touched.
\<close>

definition send_once :: "server \<Rightarrow> backend_state \<Rightarrow> request \<Rightarrow> (err + ResponseData) \<times> backend_state" where
  "send_once srv st req =
     (let config = onRequest st req
      in (case srv (wire st) config of
            Response status d \<Rightarrow>
              if 200 \<le> status \<and> status < 300 then Inr d
              else Inl (AxiosError (Some (status, d)) config)
          | NoResponse \<Rightarrow> Inl (AxiosError None config),
          st\<lparr>wire := wire st @ [config]\<rparr>))"

text \<open>An outcome that axios rejects, and the status it carries.\<close>

fun rejected :: "http_outcome \<Rightarrow> bool" where
  "rejected (Response status d) = (\<not> (200 \<le> status \<and> status < 300))"
| "rejected NoResponse = True"

fun outcome_status :: "http_outcome \<Rightarrow> nat option" where
  "outcome_status (Response status d) = Some status"
| "outcome_status NoResponse = None"

subsection \<open>Concrete states and servers used in the examples\<close>

definition st_logged_in :: backend_state where
  "st_logged_in =
     \<lparr>accessToken = Some ''access-0'', refreshTokenValue = Some ''refresh-0'', wire = []\<rparr>"

definition no_fields :: ResponseData where
  "no_fields = \<lparr>d_accessToken = None, d_refreshToken = None, d_user_id = None, d_rest = []\<rparr>"

definition token_pair :: "string \<Rightarrow> string \<Rightarrow> ResponseData" where
  "token_pair a r = \<lparr>d_accessToken = Some a, d_refreshToken = Some r, d_user_id = None, d_rest = []\<rparr>"

text \<open>A server that answers every request with the same status and an empty body.\<close>

definition srv_status :: "nat \<Rightarrow> server" where
  "srv_status status = (\<lambda>history config. Response status no_fields)"

text \<open>A server that answers every request with 200 and a fresh token pair.\<close>

definition srv_accepts :: server where
  "srv_accepts = (\<lambda>history config. Response 200 (token_pair ''access-1'' ''refresh-1''))"

text \<open>
  A server that rotates the token pair on \<open>/auth/refresh\<close>, answers 400 to a request
  that carries the new access token and 401 to any other request.
\<close>

definition srv_wrong_code :: server where
  "srv_wrong_code = (\<lambda>history config.
     if url config = ''/auth/refresh'' then Response 200 (token_pair ''access-1'' ''refresh-1'')
     else if Authorization config = Some ''Bearer access-1'' then Response 400 no_fields
     else Response 401 no_fields)"

text \<open>
  A server that answers 404 to every refresh request, accepts every logout and answers
  401 to any other request.
\<close>

definition srv_refresh_gone :: server where
  "srv_refresh_gone = (\<lambda>history config.
     if url config = ''/auth/refresh'' then Response 404 no_fields
     else if url config = ''/auth/logout'' then Response 200 no_fields
     else Response 401 no_fields)"

text \<open>
  A server on which the access token has expired and the document does not exist: it
  rotates the token pair on \<open>/auth/refresh\<close>, answers 404 to a request that carries the
  new access token and 401 to any other request.
\<close>

definition srv_expired_then_missing :: server where
  "srv_expired_then_missing = (\<lambda>history config.
     if url config = ''/auth/refresh'' then Response 200 (token_pair ''access-1'' ''refresh-1'')
     else if Authorization config = Some ''Bearer access-1'' then Response 404 no_fields
     else Response 401 no_fields)"

section \<open>Concurrent calls of the HTTP client\<close>

text \<open>
  JavaScript runs one piece of code at a time and switches between pending calls only
  where a call awaits. The functions of \<open>createApiClient\<close> and \<open>CustomAuthService\<close> are
  therefore cut at their awaits into steps, and several calls (tasks) share the token
  store and the wire; a schedule says which task takes the next step.

  A task is where one top-level call of the axios instance stands:
  \<^item> \<open>Calling config\<close>: the instance was called with \<open>config\<close>; the request interceptor
    has not run yet.
  \<^item> \<open>Waiting config out\<close>: the request is on the wire and \<open>out\<close>, the server's answer,
    has not been delivered yet.
  \<^item> \<open>Returning r\<close>: the innermost awaited promise has settled with \<open>r\<close>.
  The stack holds the functions that await, innermost first:
  \<^item> \<open>InRefreshToken\<close>: \<open>refreshToken\<close> awaits its post;
  \<^item> \<open>InOnRejected originalRequest\<close>: the response interceptor awaits
    \<open>this.auth.refreshToken\<close>;
  \<^item> \<open>InLogout\<close>: \<open>logout\<close> awaits its post, the \<open>finally\<close> block is still to run;
  \<^item> \<open>InCatch refreshError\<close>: the \<open>catch\<close> block awaits \<open>this.auth.logout()\<close>.
  \<open>sent\<close> lists the requests this task has put on the wire.
\<close>

datatype frame = InRefreshToken | InOnRejected request | InLogout | InCatch err

datatype control =
    Calling request
  | Waiting request http_outcome
  | Returning "err + ResponseData"

record task =
  control :: control
  stack :: "frame list"
  sent :: "request list"

text \<open>
  The rejection handler up to its first await on the network: mark the request, read
  the stored refresh token, and either start \<open>refreshToken\<close> or reject.
\<close>

definition reject :: "backend_state \<Rightarrow> task \<Rightarrow> (nat \<times> ResponseData) option \<Rightarrow> request \<Rightarrow> task" where
  "reject st t response config =
     (if map_option fst response = Some 401 \<and> \<not> retry config then
        (let originalRequest = config\<lparr>retry := True\<rparr>;
             rt = refreshTokenValue st
         in if truthy rt then
              t\<lparr>control := Calling (refresh_request (template rt)),
                stack := InRefreshToken # InOnRejected originalRequest # stack t\<rparr>
            else t\<lparr>control := Returning (Inl (AxiosError response originalRequest))\<rparr>)
      else t\<lparr>control := Returning (Inl (AxiosError response config))\<rparr>)"

text \<open>The awaiting function \<open>f\<close> (already taken off the stack of \<open>t\<close>) goes on with \<open>r\<close>.\<close>

fun resume :: "backend_state \<Rightarrow> task \<Rightarrow> frame \<Rightarrow> err + ResponseData \<Rightarrow> backend_state \<times> task" where
  "resume st t InRefreshToken (Inl e) = (st, t\<lparr>control := Returning (Inl e)\<rparr>)"
| "resume st t InRefreshToken (Inr d) =
     (st\<lparr>accessToken := d_accessToken d, refreshTokenValue := d_refreshToken d\<rparr>,
      t\<lparr>control := Returning (Inr d)\<rparr>)"
| "resume st t (InOnRejected originalRequest) (Inr d) =
     (st, t\<lparr>control := Calling (originalRequest
                \<lparr>Authorization := Some (''Bearer '' @ template (d_accessToken d))\<rparr>)\<rparr>)"
| "resume st t (InOnRejected originalRequest) (Inl refreshError) =
     (st, t\<lparr>control := Calling logout_request,
            stack := InLogout # InCatch refreshError # stack t\<rparr>)"
| "resume st t InLogout r =
     (st\<lparr>accessToken := None, refreshTokenValue := None\<rparr>, t\<lparr>control := Returning r\<rparr>)"
| "resume st t (InCatch refreshError) (Inl logoutError) =
     (st, t\<lparr>control := Returning (Inl logoutError)\<rparr>)"
| "resume st t (InCatch refreshError) (Inr u) =
     (st, t\<lparr>control := Returning (Inl refreshError)\<rparr>)"

text \<open>
  One step of one task. The server answers a request when it is sent (its answer
  depends on the wire before it); the answer is delivered by a later step.
\<close>

definition step_task :: "server \<Rightarrow> backend_state \<Rightarrow> task \<Rightarrow> backend_state \<times> task" where
  "step_task srv st t =
     (case control t of
        Calling req \<Rightarrow>
          (let config = onRequest st req
           in (st\<lparr>wire := wire st @ [config]\<rparr>,
               t\<lparr>control := Waiting config (srv (wire st) config), sent := sent t @ [config]\<rparr>))
      | Waiting config out \<Rightarrow>
          (case out of
             Response status d \<Rightarrow>
               if 200 \<le> status \<and> status < 300 then (st, t\<lparr>control := Returning (Inr d)\<rparr>)
               else (st, reject st t (Some (status, d)) config)
           | NoResponse \<Rightarrow> (st, reject st t None config))
      | Returning r \<Rightarrow>
          (case stack t of
             [] \<Rightarrow> (st, t)
           | f # fs \<Rightarrow> resume st (t\<lparr>stack := fs\<rparr>) f r))"

text \<open>The shared state and the tasks; a schedule is a list of task indices.\<close>

record system =
  store :: backend_state
  tasks :: "task list"

definition step :: "server \<Rightarrow> system \<Rightarrow> nat \<Rightarrow> system" where
  "step srv sys i =
     (if i < length (tasks sys) then
        (case step_task srv (store sys) (tasks sys ! i) of
           (st1, t1) \<Rightarrow> \<lparr>store = st1, tasks = (tasks sys)[i := t1]\<rparr>)
      else sys)"

definition run :: "server \<Rightarrow> system \<Rightarrow> nat list \<Rightarrow> system" where
  "run srv sys schedule = foldl (step srv) sys schedule"

text \<open>A task whose call has settled: a result, and no function left that awaits it.\<close>

fun finished :: "task \<Rightarrow> bool" where
  "finished t = (case control t of Returning r \<Rightarrow> stack t = [] | _ \<Rightarrow> False)"

text \<open>
  A request that was sent unmarked and whose answer, a 401, is about to be delivered;
  no function awaits anything else in this task.
\<close>

definition answered_401 :: "request \<Rightarrow> ResponseData \<Rightarrow> task" where
  "answered_401 config d = \<lparr>control = Waiting config (Response 401 d), stack = [], sent = [config]\<rparr>"

definition is_refresh :: "request \<Rightarrow> bool" where
  "is_refresh config = (url config = ''/auth/refresh'')"

text \<open>
  Two requests that were sent with the access token \<open>access-0\<close> and are both answered
  with 401, over the state \<open>st_logged_in\<close>.
\<close>

definition two_pending :: system where
  "two_pending =
     \<lparr>store = st_logged_in\<lparr>wire := [onRequest st_logged_in (getById_request ''posts'' ''p1''),
                                    onRequest st_logged_in (getById_request ''posts'' ''p2'')]\<rparr>,
      tasks = [answered_401 (onRequest st_logged_in (getById_request ''posts'' ''p1'')) no_fields,
               answered_401 (onRequest st_logged_in (getById_request ''posts'' ''p2'')) no_fields]\<rparr>"

text \<open>
  A server on which a refresh token can be used once: it accepts a refresh request
  unless an earlier refresh request carried the same body, accepts every logout, and
  answers 401 to any other request that does not carry the new access token.
\<close>

definition srv_single_use :: server where
  "srv_single_use = (\<lambda>history config.
     if is_refresh config then
       (if list_ex (\<lambda>q. is_refresh q \<and> body q = body config) history
        then Response 403 no_fields
        else Response 200 (token_pair ''access-1'' ''refresh-1''))
     else if url config = ''/auth/logout'' then Response 200 no_fields
     else if Authorization config = Some ''Bearer access-1'' then Response 200 no_fields
     else Response 401 no_fields)"





text \<open>
  One task running alone: \<open>k\<close> steps from a state and a task, and the places it can
  reach.
\<close>

definition steps :: "server \<Rightarrow> nat \<Rightarrow> backend_state \<times> task \<Rightarrow> backend_state \<times> task" where
  "steps srv k = (\<lambda>(st, t). step_task srv st t) ^^ k"

definition reaches :: "server \<Rightarrow> backend_state \<times> task \<Rightarrow> backend_state \<times> task \<Rightarrow> bool" where
  "reaches srv x y = (\<exists>k. steps srv k x = y)"

text \<open>
  How often, within its first \<open>k\<close> steps, a task calls the axios instance while no
  function awaits: these are the calls with the task's own request, the first one and
  every re-issue by \<open>return client(originalRequest)\<close> of its own handler. A call made
  while a function awaits is a call of \<open>refreshToken\<close> or \<open>logout\<close>, or a re-issue
  inside one of them, with another request object.
\<close>

fun own_call :: "task \<Rightarrow> nat" where
  "own_call t = (case control t of Calling q \<Rightarrow> (if stack t = [] then 1 else 0) | _ \<Rightarrow> 0)"

fun own_sends :: "server \<Rightarrow> nat \<Rightarrow> backend_state \<times> task \<Rightarrow> nat" where
  "own_sends srv 0 x = 0"
| "own_sends srv (Suc k) (st, t) = own_call t + own_sends srv k (step_task srv st t)"

text \<open>
  How many calls with its own request a task can still make: decided by the request
  itself while no function awaits, and otherwise by the function at the bottom of the
  stack, which is the only one that can hand control back with an empty stack.
\<close>

definition budget :: "task \<Rightarrow> nat" where
  "budget t =
     (if stack t = [] then
        (case control t of
           Calling q \<Rightarrow> (if retry q then 1 else 2)
         | Waiting q out \<Rightarrow> (if retry q then 0 else 1)
         | Returning r \<Rightarrow> 0)
      else
        (case last (stack t) of
           InOnRejected originalRequest \<Rightarrow> (if retry originalRequest then 1 else 2)
         | _ \<Rightarrow> 0))"

section \<open>Realtime channel of the custom backend: \<open>WebSocketService\<close>\<close>

text \<open>
  A \<open>MessageCallback\<close> is a function value; here it is a number that names it, and
  calling it with a message appends the pair to \<open>calls\<close>, the record of every
  callback invocation, oldest first.

  The socket.io client socket, as far as the service uses it:
  \<^item> \<open>connected\<close>: the socket's own flag, set when the handshake completes;
  \<^item> \<open>listeners\<close>: the handlers registered with \<open>socket.on(event, handler)\<close>, in
    registration order (\<open>on\<close> adds a handler and keeps the earlier ones;
    \<open>off(event)\<close> removes every handler of that event);
  \<^item> \<open>emitted\<close>: the calls of \<open>socket.emit(event, data, ack)\<close>, that is what was handed
    to the transport.
  The catch-all listener of \<open>socket.onAny\<close> is the same closure for every socket the
  service creates (it reads \<open>this.callbacks\<close> when a message arrives), so it is part of
  \<open>receive\<close> and \<open>leaked_receive\<close> below rather than of the socket. The
  handlers for \<open>connect\<close>, \<open>disconnect\<close> and \<open>error\<close> call only the connection and
  error callbacks, which touch none of these fields and are left out.
\<close>

type_synonym callback = nat

record socket =
  connected :: bool
  listeners :: "(string \<times> callback) list"
  emitted :: "(string \<times> string) list"

record WebSocketService =
  socket :: "socket option"
  callbacks :: "string \<rightharpoonup> callback"
  calls :: "(callback \<times> string) list"
  leaked :: "socket list"

text \<open>The fields after the constructor, and the socket that \<open>io(url, options)\<close> returns.\<close>

definition new_WebSocketService :: WebSocketService where
  "new_WebSocketService = \<lparr>socket = None, callbacks = Map.empty, calls = [], leaked = []\<rparr>"

definition io :: socket where
  "io = \<lparr>connected = False, listeners = [], emitted = []\<rparr>"

text \<open>
  \<open>connect(token)\<close> runs the body of the promise's executor at once: it stores a new
  socket in \<open>this.socket\<close> and registers the handlers. The promise it returns stays
  pending until the socket fires \<open>connect\<close> (\<open>socket_connect\<close>: the handshake is
  complete, the promise resolves) or \<open>error\<close>. A socket that an earlier \<open>connect\<close> left
  in \<open>this.socket\<close> is not closed: the field no longer refers to it, but it stays open
  with its handlers. \<open>leaked\<close> lists these sockets, oldest first.
\<close>

definition connect :: "WebSocketService \<Rightarrow> string \<Rightarrow> WebSocketService" where
  "connect ws token =
     ws\<lparr>leaked := (case socket ws of None \<Rightarrow> leaked ws | Some s \<Rightarrow> leaked ws @ [s]),
        socket := Some io\<rparr>"

definition socket_connect :: "WebSocketService \<Rightarrow> WebSocketService" where
  "socket_connect ws =
     (case socket ws of
        None \<Rightarrow> ws
      | Some s \<Rightarrow> ws\<lparr>socket := Some (s\<lparr>connected := True\<rparr>)\<rparr>)"

definition disconnect :: "WebSocketService \<Rightarrow> WebSocketService" where
  "disconnect ws =
     (case socket ws of
        None \<Rightarrow> ws
      | Some s \<Rightarrow> ws\<lparr>socket := None, callbacks := Map.empty\<rparr>)"

definition subscribe :: "WebSocketService \<Rightarrow> string \<Rightarrow> callback \<Rightarrow> WebSocketService" where
  "subscribe ws channel cb =
     (let ws1 = ws\<lparr>callbacks := (callbacks ws)(channel \<mapsto> cb)\<rparr>
      in case socket ws1 of
           None \<Rightarrow> ws1
         | Some s \<Rightarrow> ws1\<lparr>socket := Some (s\<lparr>listeners := listeners s @ [(channel, cb)]\<rparr>)\<rparr>)"

definition unsubscribe :: "WebSocketService \<Rightarrow> string \<Rightarrow> WebSocketService" where
  "unsubscribe ws channel =
     (let ws1 = ws\<lparr>callbacks := (callbacks ws)(channel := None)\<rparr>
      in case socket ws1 of
           None \<Rightarrow> ws1
         | Some s \<Rightarrow>
             ws1\<lparr>socket := Some (s\<lparr>listeners := filter (\<lambda>l. fst l \<noteq> channel) (listeners s)\<rparr>)\<rparr>)"

text \<open>
  \<open>send\<close>: what the call has done when it returns. \<open>RejectedWith e\<close> is the \<open>throw\<close>
  before anything else happens; \<open>Pending\<close> is the promise that waits for the
  acknowledgement after \<open>socket.emit\<close> was called.
\<close>

datatype promise = RejectedWith err | Pending

definition send :: "WebSocketService \<Rightarrow> string \<Rightarrow> string \<Rightarrow> promise \<times> WebSocketService" where
  "send ws channel msg =
     (case socket ws of
        None \<Rightarrow> (RejectedWith (Error ''WebSocket not connected''), ws)
      | Some s \<Rightarrow> (Pending, ws\<lparr>socket := Some (s\<lparr>emitted := emitted s @ [(channel, msg)]\<rparr>)\<rparr>))"

definition isConnected :: "WebSocketService \<Rightarrow> bool" where
  "isConnected ws = (case socket ws of None \<Rightarrow> False | Some s \<Rightarrow> connected s)"

text \<open>
  A message for \<open>event\<close> arrives on the socket. Only a connected socket receives. The
  socket calls its catch-all listeners first (the \<open>onAny\<close> closure looks the event up
  in \<open>this.callbacks\<close> and calls what it finds), then every handler registered for the
  event with \<open>on\<close>, in registration order.
\<close>

definition receive :: "WebSocketService \<Rightarrow> string \<Rightarrow> string \<Rightarrow> WebSocketService" where
  "receive ws event msg =
     (case socket ws of
        None \<Rightarrow> ws
      | Some s \<Rightarrow>
          if connected s then
            ws\<lparr>calls := calls ws
                   @ (case callbacks ws event of None \<Rightarrow> [] | Some cb \<Rightarrow> [(cb, msg)])
                   @ map (\<lambda>l. (snd l, msg)) (filter (\<lambda>l. fst l = event) (listeners s))\<rparr>
          else ws)"

text \<open>
  The same events on the \<open>k\<close>-th leaked socket: its handshake completes, and a message
  arrives on it. \<open>disconnect\<close>, \<open>subscribe\<close> and \<open>unsubscribe\<close> act on \<open>this.socket\<close> only
  and never reach a leaked socket.
\<close>

definition leaked_connect :: "WebSocketService \<Rightarrow> nat \<Rightarrow> WebSocketService" where
  "leaked_connect ws k =
     (if k < length (leaked ws)
      then ws\<lparr>leaked := (leaked ws)[k := (leaked ws ! k)\<lparr>connected := True\<rparr>]\<rparr>
      else ws)"

definition leaked_receive :: "WebSocketService \<Rightarrow> nat \<Rightarrow> string \<Rightarrow> string \<Rightarrow> WebSocketService" where
  "leaked_receive ws k event msg =
     (if k < length (leaked ws) \<and> connected (leaked ws ! k) then
        ws\<lparr>calls := calls ws
               @ (case callbacks ws event of None \<Rightarrow> [] | Some cb \<Rightarrow> [(cb, msg)])
               @ map (\<lambda>l. (snd l, msg)) (filter (\<lambda>l. fst l = event) (listeners (leaked ws ! k)))\<rparr>
      else ws)"

text \<open>The messages a callback has been called with.\<close>

definition received_by :: "WebSocketService \<Rightarrow> callback \<Rightarrow> string list" where
  "received_by ws cb = map snd (filter (\<lambda>c. fst c = cb) (calls ws))"

section \<open>Firebase backend: \<open>FirestoreService\<close>\<close>

text \<open>\<open>FirestoreService.getById\<close>: its body is the one \<open>throw\<close>.\<close>

definition Firestore_getById :: "string \<Rightarrow> string \<Rightarrow> err + ResponseData option" where
  "Firestore_getById collection ident = Inl (Error ''Firestore getById not implemented'')"

section \<open>Auth service of the auth module: \<open>src/modules/auth/services/auth.service.ts\<close>\<close>

text \<open>
  A JavaScript string is a sequence of UTF-16 code units; \<open>length\<close> and \<open>slice\<close> count
  and copy code units. One HOL \<open>char\<close> stands for one code unit here.

  \<open>String.prototype.slice(start, end)\<close>: a negative index counts from the end, both
  indices are clamped to \<open>[0, length]\<close>, a missing \<open>end\<close> is the length.
\<close>

definition js_slice :: "string \<Rightarrow> int \<Rightarrow> int option \<Rightarrow> string" where
  "js_slice s start end_opt =
     (let len = int (length s);
          from = (if start < 0 then max (len + start) 0 else min start len);
          e = (case end_opt of None \<Rightarrow> len | Some v \<Rightarrow> v);
          to = (if e < 0 then max (len + e) 0 else min e len)
      in take (nat (to - from)) (drop (nat from) s))"

definition maskPhone :: "string \<Rightarrow> string" where
  "maskPhone ph =
     (if length ph \<le> 4 then ''****''
      else js_slice ph 0 (Some 2) @ ''****'' @ js_slice ph (- 2) None)"

subsection \<open>The logging service (\<open>LoggingService\<close>)\<close>

datatype LogLevel = DEBUG | INFO | WARN | ERROR

text \<open>
  A log entry without its timestamp and correlation id. The context is the object
  literal of the call, as a key/value list.
\<close>

record LogEntry =
  level :: LogLevel
  message :: string
  userId :: "string option"
  log_context :: "(string \<times> string) list option"
  log_error :: "err option"

text \<open>The logger: its \<open>userId\<close> field and the entries it has written so far.\<close>

record LoggingService =
  logger_userId :: "string option"
  entries :: "LogEntry list"

text \<open>\<open>String.prototype.includes\<close> and \<open>toLowerCase\<close> (on the ASCII letters).\<close>

fun js_includes :: "string \<Rightarrow> string \<Rightarrow> bool" where
  "js_includes [] sk = (sk = [])"
| "js_includes (c # cs) sk = (take (length sk) (c # cs) = sk \<or> js_includes cs sk)"

definition toLowerCase :: "string \<Rightarrow> string" where
  "toLowerCase s =
     map (\<lambda>c. if (65::nat) \<le> of_char c \<and> of_char c \<le> (90::nat)
              then char_of (of_char c + (32::nat)) else c) s"

definition sensitiveKeys :: "string list" where
  "sensitiveKeys = [''password'', ''token'', ''accessToken'', ''refreshToken'', ''otp'', ''pin'']"

definition sanitizeContext :: "(string \<times> string) list option \<Rightarrow> (string \<times> string) list option" where
  "sanitizeContext ctx =
     (case ctx of
        None \<Rightarrow> None
      | Some kvs \<Rightarrow>
          Some (map (\<lambda>(key, v).
                  if list_ex (\<lambda>sk. js_includes (toLowerCase key) sk) sensitiveKeys
                  then (key, ''[REDACTED]'') else (key, v)) kvs))"

definition createLogEntry ::
  "LoggingService \<Rightarrow> LogLevel \<Rightarrow> string \<Rightarrow> (string \<times> string) list option \<Rightarrow> err option \<Rightarrow> LogEntry" where
  "createLogEntry lg lvl msg ctx e =
     \<lparr>level = lvl, message = msg,
      userId = (if truthy (logger_userId lg) then logger_userId lg else None),
      log_context = sanitizeContext ctx, log_error = e\<rparr>"

definition log ::
  "LoggingService \<Rightarrow> LogLevel \<Rightarrow> string \<Rightarrow> (string \<times> string) list option \<Rightarrow> err option \<Rightarrow> LoggingService" where
  "log lg lvl msg ctx e = lg\<lparr>entries := entries lg @ [createLogEntry lg lvl msg ctx e]\<rparr>"

definition info :: "LoggingService \<Rightarrow> string \<Rightarrow> (string \<times> string) list option \<Rightarrow> LoggingService" where
  "info lg msg ctx = log lg INFO msg ctx None"

definition error :: "LoggingService \<Rightarrow> string \<Rightarrow> err \<Rightarrow> (string \<times> string) list option \<Rightarrow> LoggingService" where
  "error lg msg e ctx = log lg ERROR msg ctx (Some e)"

definition setUserId :: "LoggingService \<Rightarrow> string option \<Rightarrow> LoggingService" where
  "setUserId lg uid = lg\<lparr>logger_userId := uid\<rparr>"

subsection \<open>\<open>AuthService.requestOTP\<close> and \<open>AuthService.verifyOTP\<close>\<close>

text \<open>
  \<open>this.backend.auth\<close> is whichever \<open>IAuthService\<close> the facade built, so its two
  methods are parameters here: each returns what the awaited call gives, \<open>Inl\<close> for
  a rejection. Reading \<open>result.user.id\<close> when the result has no \<open>user\<close> throws a
  \<open>TypeError\<close> inside the \<open>try\<close>, which the \<open>catch\<close> logs and rethrows.
\<close>

definition AuthService_requestOTP ::
  "(string \<Rightarrow> err + unit) \<Rightarrow> string \<Rightarrow> LoggingService \<Rightarrow> (err + unit) \<times> LoggingService" where
  "AuthService_requestOTP backend_requestOTP ph lg =
     (let lg1 = info lg ''Requesting OTP'' (Some [(''phone'', maskPhone ph)])
      in case backend_requestOTP ph of
           Inr u \<Rightarrow> (Inr (), info lg1 ''OTP requested successfully'' None)
         | Inl e \<Rightarrow>
             (Inl e, error lg1 ''Failed to request OTP'' e (Some [(''phone'', maskPhone ph)])))"

definition AuthService_verifyOTP ::
  "(OTPVerifyInput \<Rightarrow> err + ResponseData) \<Rightarrow> string \<Rightarrow> string \<Rightarrow> LoggingService
     \<Rightarrow> (err + ResponseData) \<times> LoggingService" where
  "AuthService_verifyOTP backend_verifyOTP ph cd lg =
     (let lg1 = info lg ''Verifying OTP'' (Some [(''phone'', maskPhone ph)])
      in case backend_verifyOTP \<lparr>phone = ph, code = cd\<rparr> of
           Inr result \<Rightarrow>
             (case d_user_id result of
                Some uid \<Rightarrow>
                  (Inr result,
                   setUserId (info lg1 ''OTP verified successfully'' (Some [(''userId'', uid)]))
                     (Some uid))
              | None \<Rightarrow>
                  (Inl (Error ''TypeError''),
                   error lg1 ''Failed to verify OTP'' (Error ''TypeError'')
                     (Some [(''phone'', maskPhone ph)])))
         | Inl e \<Rightarrow>
             (Inl e, error lg1 ''Failed to verify OTP'' e (Some [(''phone'', maskPhone ph)])))"

text \<open>The entries a call added to the log.\<close>

definition new_entries :: "LoggingService \<Rightarrow> LoggingService \<Rightarrow> LogEntry list" where
  "new_entries lg lg' = drop (length (entries lg)) (entries lg')"

text \<open>
  A logger that has written nothing, and a backend that accepts every code and whose
  user id is the phone number.
\<close>

definition new_LoggingService :: LoggingService where
  "new_LoggingService = \<lparr>logger_userId = None, entries = []\<rparr>"

definition backend_uid_is_phone :: "OTPVerifyInput \<Rightarrow> err + ResponseData" where
  "backend_uid_is_phone input =
     Inr \<lparr>d_accessToken = Some ''access-1'', d_refreshToken = Some ''refresh-1'',
          d_user_id = Some (phone input), d_rest = []\<rparr>"

section \<open>Verified properties\<close>

subsection \<open>Backend facade\<close>

text \<open>
  The \<open>throw\<close> of \<open>getBackendService\<close> needs a configuration whose kind is \<open>firebase\<close>
  and whose \<open>firebase\<close> field is absent.
\<close>

lemma getBackendService_throws_without_firebase_object:
  assumes "backendType cfg = ''firebase''" and "firebase cfg = None"
  shows "getBackendService cfg None = (Inl (Error ''Firebase configuration is missing''), None)"
  using assms by (simp add: getBackendService_def)

text \<open>
  The configuration module never builds such a configuration: when the kind is
  \<open>firebase\<close> the \<open>firebase\<close> field is an object. So on the configuration of any
  environment the first access constructs a backend and stores it.
\<close>

lemma app_config_firebase_present:
  "backendType (app_config e) = ''firebase'' \<Longrightarrow> firebase (app_config e) \<noteq> None"
  by (cases "BACKEND_TYPE e")
     (auto simp add: app_config_def firebaseConfig_def or_else_def split: if_splits)

lemma getBackendService_never_throws:
  "\<exists>b. getBackendService (app_config e) None = (Inr b, Some b)"
  using app_config_firebase_present [of e]
  by (auto simp add: getBackendService_def split: option.splits)

text \<open>
  C9, evaluated on the code. The backend kind is \<open>firebase\<close> and no \<open>FIREBASE_*\<close>
  variable is set. The configuration module still builds the \<open>firebase\<close> object, with
  every field undefined; the guard \<open>!config.firebase\<close> does not fire, and the first
  access to the singleton constructs a \<open>FirebaseBackendService\<close> from that object and
  stores it. Nothing is thrown.
\<close>

theorem getBackendService_firebase_unset_constructs:
  "backendType (app_config env_firebase_unset) = ''firebase''
   \<and> getBackendService (app_config env_firebase_unset) None
       = (Inr (FirebaseBackendService
                 \<lparr>apiKey = None, authDomain = None, projectId = None, storageBucket = None,
                  messagingSenderId = None, appId = None\<rparr>),
          Some (FirebaseBackendService
                 \<lparr>apiKey = None, authDomain = None, projectId = None, storageBucket = None,
                  messagingSenderId = None, appId = None\<rparr>))"
  by (simp add: getBackendService_def app_config_def firebaseConfig_def or_else_def
        env_firebase_unset_def)

subsection \<open>Phone masking in the logs of the auth module\<close>

lemma sanitizeContext_None: "sanitizeContext None = None"
  by (simp add: sanitizeContext_def)

lemma sanitizeContext_phone: "sanitizeContext (Some [(''phone'', v)]) = Some [(''phone'', v)]"
  by (simp add: sanitizeContext_def sensitiveKeys_def toLowerCase_def)

lemma sanitizeContext_userId: "sanitizeContext (Some [(''userId'', v)]) = Some [(''userId'', v)]"
  by (simp add: sanitizeContext_def sensitiveKeys_def toLowerCase_def)

lemma maskPhone_take_drop:
  "maskPhone ph =
     (if length ph \<le> 4 then ''****'' else take 2 ph @ ''****'' @ drop (length ph - 2) ph)"
  by (auto simp: maskPhone_def js_slice_def Let_def nat_diff_distrib' min_def max_def)

lemma requestOTP_contexts:
  "map log_context (new_entries lg (snd (AuthService_requestOTP b ph lg))) =
     (case b ph of
        Inr u \<Rightarrow> [Some [(''phone'', maskPhone ph)], None]
      | Inl e \<Rightarrow> [Some [(''phone'', maskPhone ph)], Some [(''phone'', maskPhone ph)]])"
  by (cases "b ph")
     (simp_all add: AuthService_requestOTP_def new_entries_def info_def error_def log_def
        createLogEntry_def sanitizeContext_phone sanitizeContext_None Let_def)

lemma verifyOTP_contexts:
  "map log_context (new_entries lg (snd (AuthService_verifyOTP b ph cd lg))) =
     (case b \<lparr>phone = ph, code = cd\<rparr> of
        Inl e \<Rightarrow> [Some [(''phone'', maskPhone ph)], Some [(''phone'', maskPhone ph)]]
      | Inr result \<Rightarrow>
          (case d_user_id result of
             None \<Rightarrow> [Some [(''phone'', maskPhone ph)], Some [(''phone'', maskPhone ph)]]
           | Some uid \<Rightarrow> [Some [(''phone'', maskPhone ph)], Some [(''userId'', uid)]]))"
proof (cases "b \<lparr>phone = ph, code = cd\<rparr>")
  case (Inl e)
  then show ?thesis
    by (simp add: AuthService_verifyOTP_def new_entries_def info_def error_def log_def
        createLogEntry_def sanitizeContext_phone Let_def)
next
  case (Inr result)
  then show ?thesis
    by (cases "d_user_id result")
       (simp_all add: AuthService_verifyOTP_def new_entries_def info_def error_def log_def
          createLogEntry_def sanitizeContext_phone sanitizeContext_userId
          setUserId_def Let_def)
qed

text \<open>
  C10 as stated fails. The backend accepts the code and its user id is the phone
  number: the entry for the successful verification carries the user id in its
  context, so every character of the phone is in the logged context.
\<close>

theorem verifyOTP_logs_phone_as_userId:
  "map log_context
     (entries (snd (AuthService_verifyOTP backend_uid_is_phone ''+919876543210'' ''123456''
                      new_LoggingService)))
     = [Some [(''phone'', ''+9****10'')], Some [(''userId'', ''+919876543210'')]]"
  by (simp add: AuthService_verifyOTP_def backend_uid_is_phone_def new_LoggingService_def
        info_def log_def createLogEntry_def sanitizeContext_phone sanitizeContext_userId
        setUserId_def Let_def maskPhone_def js_slice_def)

text \<open>
  C10, amended. For every phone string, whatever the backend answers and whatever the
  logger held before, \<open>AuthService.requestOTP\<close> and \<open>AuthService.verifyOTP\<close> each
  write two entries, and these are their whole contexts: the first is the one pair
  \<open>phone\<close>, \<open>maskPhone(phone)\<close>; the second is empty after a successful \<open>requestOTP\<close>,
  the one pair \<open>userId\<close> with the user id that the backend returned after a successful
  \<open>verifyOTP\<close>, and again the pair \<open>phone\<close>, \<open>maskPhone(phone)\<close> after a failure. So the
  phone that was passed in enters the context only as \<open>maskPhone(phone)\<close>, which is
  \<open>****\<close> when the phone has at most 4 characters and otherwise its first two
  characters, \<open>****\<close>, and its last two characters.
\<close>

theorem logged_contexts_mask_the_phone:
  "map log_context (new_entries lg (snd (AuthService_requestOTP b1 ph lg))) =
     (case b1 ph of
        Inr u \<Rightarrow> [Some [(''phone'', maskPhone ph)], None]
      | Inl e \<Rightarrow> [Some [(''phone'', maskPhone ph)], Some [(''phone'', maskPhone ph)]])
   \<and> map log_context (new_entries lg (snd (AuthService_verifyOTP b2 ph cd lg))) =
     (case b2 \<lparr>phone = ph, code = cd\<rparr> of
        Inl e \<Rightarrow> [Some [(''phone'', maskPhone ph)], Some [(''phone'', maskPhone ph)]]
      | Inr result \<Rightarrow>
          (case d_user_id result of
             None \<Rightarrow> [Some [(''phone'', maskPhone ph)], Some [(''phone'', maskPhone ph)]]
           | Some uid \<Rightarrow> [Some [(''phone'', maskPhone ph)], Some [(''userId'', uid)]]))
   \<and> maskPhone ph =
       (if length ph \<le> 4 then ''****'' else take 2 ph @ ''****'' @ drop (length ph - 2) ph)"
  by (intro conjI) (rule requestOTP_contexts verifyOTP_contexts maskPhone_take_drop)+

subsection \<open>The HTTP client of the custom backend\<close>

lemma retry_onRequest: "retry (onRequest st req) = retry req"
  by (simp add: onRequest_def Let_def)

lemma apiClient_marked:
  assumes "retry req"
  shows "apiClient (Suc (Suc n)) srv st req = Some (send_once srv st req)"
  using assms
  by (auto simp add: send_once_def Let_def retry_onRequest split: http_outcome.splits)

lemma apiClient_reissue:
  assumes "\<not> retry req"
    and "srv (wire st) (onRequest st req) = Response 401 d"
    and "truthy (refreshTokenValue st)"
    and "refreshToken (Suc (Suc n)) srv (st\<lparr>wire := wire st @ [onRequest st req]\<rparr>)
           (template (refreshTokenValue st)) = Some (Inr d', st2)"
  shows "apiClient (Suc (Suc (Suc (Suc n)))) srv st req =
           Some (send_once srv st2
                  ((onRequest st req)\<lparr>retry := True,
                     Authorization := Some (''Bearer '' @ template (d_accessToken d'))\<rparr>))"
proof -
  have "apiClient (Suc (Suc (Suc (Suc n)))) srv st req =
          apiClient (Suc (Suc n)) srv st2
            ((onRequest st req)\<lparr>retry := True,
               Authorization := Some (''Bearer '' @ template (d_accessToken d'))\<rparr>)"
    using assms by (simp add: Let_def retry_onRequest del: refreshToken.simps)
  also have "\<dots> = Some (send_once srv st2
                  ((onRequest st req)\<lparr>retry := True,
                     Authorization := Some (''Bearer '' @ template (d_accessToken d'))\<rparr>))"
    by (rule apiClient_marked) simp
  finally show ?thesis .
qed

lemma apiClient_rejected_as_is:
  assumes "srv (wire st) (onRequest st req) = out"
    and "rejected out"
    and "outcome_status out \<noteq> Some 401 \<or> \<not> truthy (refreshTokenValue st)"
  shows "\<exists>e. apiClient (Suc (Suc n)) srv st req =
               Some (Inl e, st\<lparr>wire := wire st @ [onRequest st req]\<rparr>)
             \<and> response_status e = outcome_status out"
  using assms by (cases out) (auto simp add: Let_def)


lemma send_once_401:
  "srv (wire st) (onRequest st req) = Response 401 d \<Longrightarrow>
   send_once srv st req =
     (Inl (AxiosError (Some (401, d)) (onRequest st req)), st\<lparr>wire := wire st @ [onRequest st req]\<rparr>)"
  by (simp add: send_once_def Let_def)

subsection \<open>\<open>CustomAuthService.refreshToken\<close> with a refresh token the server rejects\<close>

text \<open>
  C3, evaluated on the code. Both tokens are stored, the server answers the refresh
  request with 403: \<open>refreshToken\<close> rejects with the axios error, and the token store
  still holds the pair it held before; nothing on this path clears it.
\<close>

theorem refreshToken_rejected_keeps_stale_tokens:
  "refreshToken 3 (srv_status 403) st_logged_in ''refresh-0'' =
     Some (Inl (AxiosError (Some (403, no_fields))
                  ((refresh_request ''refresh-0'')\<lparr>Authorization := Some ''Bearer access-0''\<rparr>)),
           \<lparr>accessToken = Some ''access-0'', refreshTokenValue = Some ''refresh-0'',
            wire = [(refresh_request ''refresh-0'')\<lparr>Authorization := Some ''Bearer access-0''\<rparr>]\<rparr>)"
  by (simp add: eval_nat_numeral srv_status_def st_logged_in_def onRequest_def Let_def)

text \<open>
  The same for every state and every server whose answer to the refresh request is a
  failure other than 401: the call rejects and only the wire has changed.
\<close>

lemma refreshToken_failure_keeps_tokens:
  assumes "srv (wire st) (onRequest st (refresh_request rt)) = out"
    and "rejected out"
    and "outcome_status out \<noteq> Some 401"
  shows "\<exists>e. refreshToken (Suc (Suc (Suc n))) srv st rt =
               Some (Inl e, st\<lparr>wire := wire st @ [onRequest st (refresh_request rt)]\<rparr>)
             \<and> response_status e = outcome_status out"
proof -
  from assms
  have "\<exists>e. apiClient (Suc (Suc n)) srv st (refresh_request rt) =
               Some (Inl e, st\<lparr>wire := wire st @ [onRequest st (refresh_request rt)]\<rparr>)
             \<and> response_status e = outcome_status out"
    by (intro apiClient_rejected_as_is) simp_all
  then obtain e where
    "apiClient (Suc (Suc n)) srv st (refresh_request rt) =
       Some (Inl e, st\<lparr>wire := wire st @ [onRequest st (refresh_request rt)]\<rparr>)"
    "response_status e = outcome_status out"
    by (elim exE conjE)
  then show ?thesis
    by (simp del: apiClient.simps)
qed

text \<open>
  When the server answers every refresh request with 401 and a refresh token is
  stored, the response interceptor answers the rejected refresh request with another
  refresh request, and so on: the call returns for no amount of fuel.
\<close>

lemma refresh_401_no_result:
  assumes srv: "\<And>h c. url c = ''/auth/refresh'' \<Longrightarrow> \<exists>d. srv h c = Response 401 d"
  shows "(\<forall>st rt. truthy (refreshTokenValue st) \<longrightarrow> refreshToken n srv st rt = None)
       \<and> (\<forall>st rt. truthy (refreshTokenValue st) \<longrightarrow> apiClient n srv st (refresh_request rt) = None)
       \<and> (\<forall>st d c. truthy (refreshTokenValue st) \<longrightarrow> \<not> retry c
             \<longrightarrow> onRejected n srv st (Some (401, d)) c = None)"
proof (induction n)
  case 0
  then show ?case by simp
next
  case (Suc n)
  have url: "\<And>(st::backend_state) rt. url (onRequest st (refresh_request rt)) = ''/auth/refresh''"
    by (simp add: onRequest_def refresh_request_def Let_def)
  have unmarked: "\<And>(st::backend_state) rt. \<not> retry (onRequest st (refresh_request rt))"
    by (simp add: refresh_request_def retry_onRequest)
  show ?case
  proof (intro conjI allI impI)
    fix st :: backend_state and rt
    assume "truthy (refreshTokenValue st)"
    with Suc show "refreshToken (Suc n) srv st rt = None" by simp
  next
    fix st :: backend_state and rt
    assume t: "truthy (refreshTokenValue st)"
    obtain d where "srv (wire st) (onRequest st (refresh_request rt)) = Response 401 d"
      using srv [OF url] by blast
    with Suc t unmarked show "apiClient (Suc n) srv st (refresh_request rt) = None"
      by (simp add: Let_def)
  next
    fix st :: backend_state and d and c :: request
    assume "truthy (refreshTokenValue st)" "\<not> retry c"
    with Suc show "onRejected (Suc n) srv st (Some (401, d)) c = None"
      by (simp add: Let_def)
  qed
qed

lemma refreshToken_401_never_returns:
  "refreshToken n (srv_status 401) st_logged_in ''refresh-0'' = None"
  using refresh_401_no_result [of "srv_status 401" n]
  by (simp add: srv_status_def st_logged_in_def)

subsection \<open>\<open>CustomAuthService.verifyOTP\<close> and the token store\<close>

text \<open>
  C6 as stated fails. A session is stored; the server answers the verify request with
  401, rotates the token pair on the refresh that the response interceptor then makes,
  and answers the retried verify request with 400. \<open>verifyOTP\<close> rejects, and both
  stored tokens have changed.
\<close>

theorem verifyOTP_failure_changes_tokens:
  "verifyOTP 6 srv_wrong_code st_logged_in \<lparr>phone = ''+919876543210'', code = ''000000''\<rparr> =
     Some (Inl (AxiosError (Some (400, no_fields))
                  ((verify_request \<lparr>phone = ''+919876543210'', code = ''000000''\<rparr>)
                     \<lparr>retry := True, Authorization := Some ''Bearer access-1''\<rparr>)),
           \<lparr>accessToken = Some ''access-1'', refreshTokenValue = Some ''refresh-1'',
            wire = [(verify_request \<lparr>phone = ''+919876543210'', code = ''000000''\<rparr>)
                      \<lparr>Authorization := Some ''Bearer access-0''\<rparr>,
                    (refresh_request ''refresh-0'')\<lparr>Authorization := Some ''Bearer access-0''\<rparr>,
                    (verify_request \<lparr>phone = ''+919876543210'', code = ''000000''\<rparr>)
                      \<lparr>retry := True, Authorization := Some ''Bearer access-1''\<rparr>]\<rparr>)
   \<and> accessToken st_logged_in = Some ''access-0''
   \<and> refreshTokenValue st_logged_in = Some ''refresh-0''"
  by (simp add: verifyOTP_def eval_nat_numeral srv_wrong_code_def st_logged_in_def onRequest_def
        Let_def refresh_request_def verify_request_def token_pair_def no_fields_def)

lemma verifyOTP_success_sets_both:
  assumes "verifyOTP n srv st input = Some (Inr d, st1)"
  shows "accessToken st1 = d_accessToken d \<and> refreshTokenValue st1 = d_refreshToken d"
  using assms by (auto simp add: verifyOTP_def split: option.splits sum.splits)

lemma verifyOTP_failure_keeps_tokens:
  assumes "srv (wire st) (onRequest st (verify_request input)) = out"
    and "rejected out"
    and "outcome_status out \<noteq> Some 401 \<or> \<not> truthy (refreshTokenValue st)"
  shows "\<exists>e. verifyOTP (Suc (Suc n)) srv st input =
               Some (Inl e, st\<lparr>wire := wire st @ [onRequest st (verify_request input)]\<rparr>)
             \<and> response_status e = outcome_status out"
proof -
  from assms
  have "\<exists>e. apiClient (Suc (Suc n)) srv st (verify_request input) =
               Some (Inl e, st\<lparr>wire := wire st @ [onRequest st (verify_request input)]\<rparr>)
             \<and> response_status e = outcome_status out"
    by (intro apiClient_rejected_as_is) simp_all
  then obtain e where
    "apiClient (Suc (Suc n)) srv st (verify_request input) =
       Some (Inl e, st\<lparr>wire := wire st @ [onRequest st (verify_request input)]\<rparr>)"
    "response_status e = outcome_status out"
    by (elim exE conjE)
  then show ?thesis
    by (simp add: verifyOTP_def del: apiClient.simps)
qed

text \<open>
  C6, amended. On success \<open>verifyOTP\<close> sets both stored tokens, together, to the values
  of the response it returns. On a failure that the 401 interceptor does not take up
  (the server's answer to the verify request is a failure other than 401, or it is a
  401 and no refresh token is stored) \<open>verifyOTP\<close> rejects with the error of that
  answer and neither stored token is modified: only the wire has one more entry.
\<close>

theorem verifyOTP_token_store:
  "(verifyOTP n srv st input = Some (Inr d, st1)
      \<longrightarrow> accessToken st1 = d_accessToken d \<and> refreshTokenValue st1 = d_refreshToken d)
   \<and> (rejected (srv' (wire st') (onRequest st' (verify_request input')))
       \<and> (outcome_status (srv' (wire st') (onRequest st' (verify_request input'))) \<noteq> Some 401
            \<or> \<not> truthy (refreshTokenValue st'))
      \<longrightarrow> (\<exists>e. verifyOTP (Suc (Suc k)) srv' st' input' =
                 Some (Inl e, st'\<lparr>wire := wire st' @ [onRequest st' (verify_request input')]\<rparr>)
               \<and> response_status e =
                   outcome_status (srv' (wire st') (onRequest st' (verify_request input')))))"
  using verifyOTP_success_sets_both [of n srv st input d st1]
    verifyOTP_failure_keeps_tokens [where srv = srv' and st = st' and input = input' and n = k
      and out = "srv' (wire st') (onRequest st' (verify_request input'))"]
  by simp


theorem verifyOTP_token_store_witness:
  "verifyOTP 1 srv_accepts st_logged_in \<lparr>phone = ''+919876543210'', code = ''123456''\<rparr> =
     Some (Inr (token_pair ''access-1'' ''refresh-1''),
           \<lparr>accessToken = Some ''access-1'', refreshTokenValue = Some ''refresh-1'',
            wire = [(verify_request \<lparr>phone = ''+919876543210'', code = ''123456''\<rparr>)
                      \<lparr>Authorization := Some ''Bearer access-0''\<rparr>]\<rparr>)
   \<and> accessToken \<lparr>accessToken = Some ''access-1'', refreshTokenValue = Some ''refresh-1'',
            wire = [(verify_request \<lparr>phone = ''+919876543210'', code = ''123456''\<rparr>)
                      \<lparr>Authorization := Some ''Bearer access-0''\<rparr>]\<rparr>
       = d_accessToken (token_pair ''access-1'' ''refresh-1'')
   \<and> rejected (srv_status 400 (wire st_logged_in)
                 (onRequest st_logged_in
                    (verify_request \<lparr>phone = ''+919876543210'', code = ''000000''\<rparr>)))
   \<and> outcome_status (srv_status 400 (wire st_logged_in)
                 (onRequest st_logged_in
                    (verify_request \<lparr>phone = ''+919876543210'', code = ''000000''\<rparr>))) \<noteq> Some 401
   \<and> (\<exists>e. verifyOTP 2 (srv_status 400) st_logged_in \<lparr>phone = ''+919876543210'', code = ''000000''\<rparr> =
              Some (Inl e,
                    st_logged_in\<lparr>wire := [(verify_request \<lparr>phone = ''+919876543210'', code = ''000000''\<rparr>)
                                            \<lparr>Authorization := Some ''Bearer access-0''\<rparr>]\<rparr>)
            \<and> response_status e = Some 400)"
proof -
  let ?ok = "\<lparr>phone = ''+919876543210'', code = ''123456''\<rparr>"
  let ?bad = "\<lparr>phone = ''+919876543210'', code = ''000000''\<rparr>"
  let ?st1 = "\<lparr>accessToken = Some ''access-1'', refreshTokenValue = Some ''refresh-1'',
            wire = [(verify_request ?ok)\<lparr>Authorization := Some ''Bearer access-0''\<rparr>]\<rparr>"
  have ok: "verifyOTP 1 srv_accepts st_logged_in ?ok = Some (Inr (token_pair ''access-1'' ''refresh-1''), ?st1)"
    by (simp add: verifyOTP_def srv_accepts_def st_logged_in_def onRequest_def Let_def token_pair_def)
  have cfg: "onRequest st_logged_in (verify_request ?bad) =
               (verify_request ?bad)\<lparr>Authorization := Some ''Bearer access-0''\<rparr>"
    by (simp add: onRequest_def st_logged_in_def Let_def)
  have w: "wire st_logged_in = []"
    by (simp add: st_logged_in_def)
  show ?thesis
    using verifyOTP_token_store
            [where n = 1 and srv = srv_accepts and st = st_logged_in and input = ?ok
               and d = "token_pair ''access-1'' ''refresh-1''" and ?st1.0 = ?st1
               and srv' = "srv_status 400" and st' = st_logged_in and input' = ?bad and k = 0]
          ok
    by (simp add: eval_nat_numeral cfg w srv_status_def del: apiClient.simps)
qed

subsection \<open>The realtime channel\<close>

text \<open>
  C7, evaluated on the code. The service is connected; \<open>subscribe("C", A)\<close> and then
  \<open>subscribe("C", B)\<close> are called, with \<open>A\<close> the callback 1 and \<open>B\<close> the callback 2;
  then one message arrives on \<open>C\<close>. The map holds only \<open>B\<close>, but the socket holds the
  handlers of both calls: \<open>A\<close> is called with the message, and \<open>B\<close> twice.
\<close>

theorem subscribe_twice_connected_first_still_called:
  "calls (receive (subscribe (subscribe (socket_connect (connect new_WebSocketService ''token''))
                     ''C'' 1) ''C'' 2) ''C'' ''hello'')
     = [(2, ''hello''), (1, ''hello''), (2, ''hello'')]
   \<and> received_by (receive (subscribe (subscribe (socket_connect (connect new_WebSocketService ''token''))
                     ''C'' 1) ''C'' 2) ''C'' ''hello'') 1 = [''hello'']"
  by (simp add: receive_def subscribe_def socket_connect_def connect_def new_WebSocketService_def
        io_def received_by_def Let_def)

text \<open>
  The same for every service that holds a connected socket: the first callback still
  receives the message. Without a socket at the time of both calls, only the map is
  written, and after a connect the second callback alone is called.
\<close>

lemma subscribe_twice_connected:
  assumes "socket ws = Some s" and "connected s"
  shows "msg \<in> set (received_by (receive (subscribe (subscribe ws c a) c b) c msg) a)"
  using assms by (simp add: receive_def subscribe_def received_by_def Let_def)

lemma subscribe_twice_without_socket:
  assumes "socket ws = None"
  shows "calls (receive (socket_connect (connect (subscribe (subscribe ws c a) c b) token)) c msg)
           = calls ws @ [(b, msg)]"
  using assms
  by (simp add: receive_def subscribe_def socket_connect_def connect_def io_def Let_def)

text \<open>
  C8 as stated fails: \<open>connect\<close> was called and the handshake is not complete, so the
  channel is not connected (\<open>isConnected()\<close> is false); \<open>send\<close> does not reject, it
  calls \<open>socket.emit\<close>.
\<close>

theorem send_while_connecting_emits:
  "isConnected (connect new_WebSocketService ''token'') = False
   \<and> send (connect new_WebSocketService ''token'') ''message.send'' ''hi''
       = (Pending,
          \<lparr>socket = Some \<lparr>connected = False, listeners = [], emitted = [(''message.send'', ''hi'')]\<rparr>,
           callbacks = Map.empty, calls = [], leaked = []\<rparr>)"
  by (simp add: isConnected_def send_def connect_def new_WebSocketService_def io_def)

text \<open>
  C8, amended. On a realtime channel that holds no socket (before the first
  \<open>connect\<close>, and after every \<open>disconnect\<close>) \<open>send\<close> rejects at once with the error
  \<open>WebSocket not connected\<close> and changes nothing: no socket exists, so nothing is
  emitted and nothing is queued. While the service holds a socket, connected or not,
  \<open>send\<close> hands the message to that socket.
\<close>

theorem send_without_socket_rejects:
  "send new_WebSocketService channel msg
     = (RejectedWith (Error ''WebSocket not connected''), new_WebSocketService)
   \<and> send (disconnect ws) channel msg
     = (RejectedWith (Error ''WebSocket not connected''), disconnect ws)
   \<and> (socket ws' = None
        \<longrightarrow> send ws' channel msg = (RejectedWith (Error ''WebSocket not connected''), ws'))
   \<and> (socket ws' = Some s
        \<longrightarrow> send ws' channel msg
            = (Pending, ws'\<lparr>socket := Some (s\<lparr>emitted := emitted s @ [(channel, msg)]\<rparr>)\<rparr>))"
  by (simp add: send_def disconnect_def new_WebSocketService_def split: option.splits)

theorem send_without_socket_rejects_witness:
  "socket new_WebSocketService = None
   \<and> send new_WebSocketService ''message.send'' ''hi''
       = (RejectedWith (Error ''WebSocket not connected''), new_WebSocketService)
   \<and> socket (socket_connect (connect new_WebSocketService ''token''))
       = Some \<lparr>connected = True, listeners = [], emitted = []\<rparr>
   \<and> send (socket_connect (connect new_WebSocketService ''token'')) ''message.send'' ''hi''
       = (Pending,
          \<lparr>socket = Some \<lparr>connected = True, listeners = [], emitted = [(''message.send'', ''hi'')]\<rparr>,
           callbacks = Map.empty, calls = [], leaked = []\<rparr>)"
  using send_without_socket_rejects
          [where ws' = new_WebSocketService and channel = "''message.send''" and msg = "''hi''"]
        send_without_socket_rejects
          [where ws' = "socket_connect (connect new_WebSocketService ''token'')"
             and s = "\<lparr>connected = True, listeners = [], emitted = []\<rparr>"
             and channel = "''message.send''" and msg = "''hi''"]
  by (simp add: socket_connect_def connect_def new_WebSocketService_def io_def)

text \<open>
  C2 as stated fails: the service is connected and subscribed to \<open>chat-1\<close> and
  \<open>chat-2\<close>; after \<open>disconnect()\<close>, \<open>connect(token)\<close> and a completed handshake no
  callback is registered any more, and a message on \<open>chat-2\<close> calls nothing.
\<close>

theorem reconnect_loses_subscriptions:
  "callbacks (socket_connect (connect (disconnect
      (subscribe (subscribe (socket_connect (connect new_WebSocketService ''token''))
         ''chat-1'' 1) ''chat-2'' 2)) ''token'')) ''chat-2'' = None
   \<and> calls (receive (socket_connect (connect (disconnect
      (subscribe (subscribe (socket_connect (connect new_WebSocketService ''token''))
         ''chat-1'' 1) ''chat-2'' 2)) ''token'')) ''chat-2'' ''hello'') = []"
  by (simp add: receive_def subscribe_def disconnect_def socket_connect_def connect_def
        new_WebSocketService_def io_def Let_def)

subsection \<open>The steps of one task and the recursive functions agree\<close>

lemma reaches_refl: "reaches srv x x"
  unfolding reaches_def steps_def by (rule exI [of _ 0]) simp

lemma reaches_trans:
  assumes "reaches srv x y" and "reaches srv y z"
  shows "reaches srv x z"
proof -
  from assms obtain j k where "steps srv j x = y" "steps srv k y = z"
    unfolding reaches_def by blast
  then have "steps srv (k + j) x = z"
    by (simp add: steps_def funpow_add)
  then show ?thesis
    unfolding reaches_def by blast
qed

lemma reaches_step: "reaches srv (st, t) (step_task srv st t)"
  unfolding reaches_def steps_def by (rule exI [of _ 1]) simp

lemma reaches_step_then:
  assumes "step_task srv st t = y" and "reaches srv y z"
  shows "reaches srv (st, t) z"
  using reaches_trans [OF reaches_step [of srv st t]] assms by simp

text \<open>
  Whatever the recursive functions return with some fuel, a task running alone reaches
  in finitely many steps: the same result, the same state, and the stack of awaiting
  functions as it was before the call.
\<close>

lemma machine_follows_functions:
  "(\<forall>st req r st1 t. apiClient n srv st req = Some (r, st1) \<longrightarrow> control t = Calling req \<longrightarrow>
      (\<exists>t1. reaches srv (st, t) (st1, t1) \<and> control t1 = Returning r \<and> stack t1 = stack t))
 \<and> (\<forall>st response config r st1 t. onRejected n srv st response config = Some (r, st1) \<longrightarrow>
      (\<exists>t1. reaches srv (st, reject st t response config) (st1, t1)
            \<and> control t1 = Returning r \<and> stack t1 = stack t))
 \<and> (\<forall>st rt r st1 t fs. refreshToken n srv st rt = Some (r, st1) \<longrightarrow>
      control t = Calling (refresh_request rt) \<longrightarrow> stack t = InRefreshToken # fs \<longrightarrow>
      (\<exists>t1. reaches srv (st, t) (st1, t1) \<and> control t1 = Returning r \<and> stack t1 = fs))
 \<and> (\<forall>st r st1 t fs. logout n srv st = Some (r, st1) \<longrightarrow>
      control t = Calling logout_request \<longrightarrow> stack t = InLogout # fs \<longrightarrow>
      (\<exists>t1 r1. reaches srv (st, t) (st1, t1) \<and> control t1 = Returning r1 \<and> stack t1 = fs
            \<and> isl r1 = isl r \<and> (isl r \<longrightarrow> projl r1 = projl r)))"
proof (induction n)
  case 0
  show ?case by simp
next
  case (Suc n)
  note IH_api = Suc.IH [THEN conjunct1, rule_format]
  note IH_rej = Suc.IH [THEN conjunct2, THEN conjunct1, rule_format]
  note IH_ref = Suc.IH [THEN conjunct2, THEN conjunct2, THEN conjunct1, rule_format]
  note IH_out = Suc.IH [THEN conjunct2, THEN conjunct2, THEN conjunct2, rule_format]
  have api: "\<exists>t1. reaches srv (st, t) (st1, t1) \<and> control t1 = Returning r \<and> stack t1 = stack t"
    if call: "apiClient (Suc n) srv st req = Some (r, st1)" and ctl: "control t = Calling req"
    for st req r st1 t
  proof -
    let ?config = "onRequest st req"
    let ?st = "st\<lparr>wire := wire st @ [?config]\<rparr>"
    let ?out = "srv (wire st) ?config"
    let ?t = "t\<lparr>control := Waiting ?config ?out, sent := sent t @ [?config]\<rparr>"
    have first: "step_task srv st t = (?st, ?t)"
      using ctl by (simp add: step_task_def Let_def)
    show ?thesis
    proof (cases ?out)
      case NoResponse
      with call have "onRejected n srv ?st None ?config = Some (r, st1)"
        by (simp add: Let_def)
      from IH_rej [OF this, of ?t] obtain t1 where
        t1: "reaches srv (?st, reject ?st ?t None ?config) (st1, t1)"
            "control t1 = Returning r" "stack t1 = stack t"
        by auto
      have "step_task srv ?st ?t = (?st, reject ?st ?t None ?config)"
        using NoResponse by (simp add: step_task_def)
      from this t1(1) have "reaches srv (?st, ?t) (st1, t1)"
        by (rule reaches_step_then)
      from first this have "reaches srv (st, t) (st1, t1)"
        by (rule reaches_step_then)
      with t1 show ?thesis by blast
    next
      case (Response status d)
      show ?thesis
      proof (cases "200 \<le> status \<and> status < 300")
        case True
        with call Response have r: "r = Inr d" "st1 = ?st"
          by (simp_all add: Let_def)
        have "step_task srv ?st ?t = (?st, ?t\<lparr>control := Returning (Inr d)\<rparr>)"
          using Response True by (simp add: step_task_def)
        then have "reaches srv (?st, ?t) (?st, ?t\<lparr>control := Returning (Inr d)\<rparr>)"
          using reaches_step [of srv ?st ?t] by simp
        from first this have "reaches srv (st, t) (?st, ?t\<lparr>control := Returning (Inr d)\<rparr>)"
          by (rule reaches_step_then)
        with r show ?thesis
          by (intro exI [of _ "?t\<lparr>control := Returning (Inr d)\<rparr>"]) simp
      next
        case False
        with call Response have "onRejected n srv ?st (Some (status, d)) ?config = Some (r, st1)"
          by (simp add: Let_def)
        from IH_rej [OF this, of ?t] obtain t1 where
          t1: "reaches srv (?st, reject ?st ?t (Some (status, d)) ?config) (st1, t1)"
              "control t1 = Returning r" "stack t1 = stack t"
          by auto
        have "step_task srv ?st ?t = (?st, reject ?st ?t (Some (status, d)) ?config)"
          using Response False by (auto simp add: step_task_def)
        from this t1(1) have "reaches srv (?st, ?t) (st1, t1)"
          by (rule reaches_step_then)
        from first this have "reaches srv (st, t) (st1, t1)"
          by (rule reaches_step_then)
        with t1 show ?thesis by blast
      qed
    qed
  qed
  have rej: "\<exists>t1. reaches srv (st, reject st t response config) (st1, t1)
                 \<and> control t1 = Returning r \<and> stack t1 = stack t"
    if call: "onRejected (Suc n) srv st response config = Some (r, st1)"
    for st response config r st1 t
  proof (cases "map_option fst response = Some 401 \<and> \<not> retry config \<and> truthy (refreshTokenValue st)")
    case False
    with call have "reject st t response config = t\<lparr>control := Returning r\<rparr>" and "st1 = st"
      by (auto simp add: reject_def Let_def split: if_splits)
    then show ?thesis
      using reaches_refl [of srv "(st, t\<lparr>control := Returning r\<rparr>)"]
      by (intro exI [of _ "t\<lparr>control := Returning r\<rparr>"]) simp
  next
    case True
    let ?orq = "config\<lparr>retry := True\<rparr>"
    let ?rt = "template (refreshTokenValue st)"
    let ?t0 = "t\<lparr>control := Calling (refresh_request ?rt),
                 stack := InRefreshToken # InOnRejected ?orq # stack t\<rparr>"
    have t0: "reject st t response config = ?t0"
      using True by (simp add: reject_def Let_def)
    from call True obtain res st2 where ref: "refreshToken n srv st ?rt = Some (res, st2)"
      by (cases "refreshToken n srv st ?rt") (auto simp add: Let_def)
    from IH_ref [OF ref, of ?t0 "InOnRejected ?orq # stack t"] obtain t2 where
      t2: "reaches srv (st, ?t0) (st2, t2)" "control t2 = Returning res"
          "stack t2 = InOnRejected ?orq # stack t"
      by auto
    show ?thesis
    proof (cases res)
      case (Inr d)
      let ?req = "?orq\<lparr>Authorization := Some (''Bearer '' @ template (d_accessToken d))\<rparr>"
      let ?t3 = "t2\<lparr>stack := stack t, control := Calling ?req\<rparr>"
      have next_step: "step_task srv st2 t2 = (st2, ?t3)"
        using t2 Inr by (simp add: step_task_def)
      from call True ref Inr have "apiClient n srv st2 ?req = Some (r, st1)"
        by (simp add: Let_def)
      from IH_api [OF this, of ?t3] obtain t1 where
        t1: "reaches srv (st2, ?t3) (st1, t1)" "control t1 = Returning r" "stack t1 = stack t"
        by auto
      from next_step t1(1) have "reaches srv (st2, t2) (st1, t1)"
        by (rule reaches_step_then)
      with t2(1) have "reaches srv (st, ?t0) (st1, t1)"
        by (rule reaches_trans)
      with t0 t1 show ?thesis by auto
    next
      case (Inl e)
      let ?t3 = "t2\<lparr>stack := InLogout # InCatch e # stack t, control := Calling logout_request\<rparr>"
      have next_step: "step_task srv st2 t2 = (st2, ?t3)"
        using t2 Inl by (simp add: step_task_def)
      from call True ref Inl obtain lr st3 where out: "logout n srv st2 = Some (lr, st3)"
        by (cases "logout n srv st2") (auto simp add: Let_def)
      from IH_out [OF out, of ?t3 "InCatch e # stack t"] obtain t4 r4 where
        t4: "reaches srv (st2, ?t3) (st3, t4)" "control t4 = Returning r4"
            "stack t4 = InCatch e # stack t" "isl r4 = isl lr" "isl lr \<longrightarrow> projl r4 = projl lr"
        by auto
      from call True ref Inl out have r: "r = (case lr of Inl le \<Rightarrow> Inl le | Inr u \<Rightarrow> Inl e)"
        and st1: "st1 = st3"
        by (auto simp add: Let_def split: sum.splits)
      let ?t5 = "t4\<lparr>stack := stack t, control := Returning r\<rparr>"
      have last_step: "step_task srv st3 t4 = (st3, ?t5)"
        using t4 r by (cases lr; cases r4) (simp_all add: step_task_def)
      then have "reaches srv (st3, t4) (st3, ?t5)"
        using reaches_step [of srv st3 t4] by simp
      with t4(1) have "reaches srv (st2, ?t3) (st3, ?t5)"
        by (rule reaches_trans)
      with next_step have "reaches srv (st2, t2) (st3, ?t5)"
        by (rule reaches_step_then)
      with t2(1) have "reaches srv (st, ?t0) (st3, ?t5)"
        by (rule reaches_trans)
      with t0 st1 show ?thesis
        by (intro exI [of _ ?t5]) simp
    qed
  qed
  have ref: "\<exists>t1. reaches srv (st, t) (st1, t1) \<and> control t1 = Returning r \<and> stack t1 = fs"
    if call: "refreshToken (Suc n) srv st rt = Some (r, st1)"
      and ctl: "control t = Calling (refresh_request rt)" and stk: "stack t = InRefreshToken # fs"
    for st rt r st1 t fs
  proof -
    from call obtain res st2 where a: "apiClient n srv st (refresh_request rt) = Some (res, st2)"
      by (cases "apiClient n srv st (refresh_request rt)") auto
    from IH_api [OF a ctl] obtain t2 where
      t2: "reaches srv (st, t) (st2, t2)" "control t2 = Returning res" "stack t2 = stack t"
      by auto
    let ?t3 = "t2\<lparr>stack := fs, control := Returning r\<rparr>"
    have "step_task srv st2 t2 = (st1, ?t3)"
      using call a t2 stk by (cases res) (auto simp add: step_task_def)
    then have "reaches srv (st2, t2) (st1, ?t3)"
      using reaches_step [of srv st2 t2] by simp
    with t2(1) have "reaches srv (st, t) (st1, ?t3)"
      by (rule reaches_trans)
    then show ?thesis
      by (intro exI [of _ ?t3]) simp
  qed
  have out: "\<exists>t1 r1. reaches srv (st, t) (st1, t1) \<and> control t1 = Returning r1 \<and> stack t1 = fs
                 \<and> isl r1 = isl r \<and> (isl r \<longrightarrow> projl r1 = projl r)"
    if call: "logout (Suc n) srv st = Some (r, st1)"
      and ctl: "control t = Calling logout_request" and stk: "stack t = InLogout # fs"
    for st r st1 t fs
  proof -
    from call obtain res st2 where a: "apiClient n srv st logout_request = Some (res, st2)"
      by (cases "apiClient n srv st logout_request") auto
    from IH_api [OF a ctl] obtain t2 where
      t2: "reaches srv (st, t) (st2, t2)" "control t2 = Returning res" "stack t2 = stack t"
      by auto
    let ?t3 = "t2\<lparr>stack := fs, control := Returning res\<rparr>"
    have "step_task srv st2 t2 = (st1, ?t3)"
      using call a t2 stk by (cases res) (auto simp add: step_task_def)
    then have "reaches srv (st2, t2) (st1, ?t3)"
      using reaches_step [of srv st2 t2] by simp
    with t2(1) have "reaches srv (st, t) (st1, ?t3)"
      by (rule reaches_trans)
    moreover from call a have "isl res = isl r \<and> (isl r \<longrightarrow> projl res = projl r)"
      by (cases res) auto
    ultimately show ?thesis
      by (intro exI [of _ ?t3] exI [of _ res]) simp
  qed
  show ?case
    apply (intro conjI allI impI)
       apply (rule api; assumption)
      apply (rule rej; assumption)
     apply (rule ref; assumption)
    apply (rule out; assumption)
    done
qed

text \<open>
  In particular for a call of the instance from a task with nothing else pending: if
  \<open>apiClient\<close> returns, the task settles with the same result and leaves the same state.
\<close>

lemma task_settles_like_apiClient:
  assumes "apiClient n srv st req = Some (r, st1)"
  shows "\<exists>t1. reaches srv (st, \<lparr>control = Calling req, stack = [], sent = []\<rparr>) (st1, t1)
            \<and> control t1 = Returning r \<and> finished t1"
  using machine_follows_functions [of n srv, THEN conjunct1, rule_format, OF assms,
          of "\<lparr>control = Calling req, stack = [], sent = []\<rparr>"]
  by auto

subsection \<open>Subscriptions across a reconnect\<close>

text \<open>
  A socket that \<open>connect\<close> replaced keeps delivering. The service connects and subscribes
  to \<open>chat-2\<close>; \<open>connect\<close> is called again without a \<open>disconnect\<close>, then \<open>disconnect\<close> and
  \<open>connect\<close>. The first socket is still open with the handler that \<open>subscribe\<close>
  registered on it, and a message arriving on it calls the callback.
\<close>

lemma leaked_socket_still_delivers:
  "calls (leaked_receive
            (socket_connect (connect (disconnect
               (socket_connect (connect
                  (subscribe (socket_connect (connect new_WebSocketService ''token'')) ''chat-2'' 2)
                  ''token''))) ''token''))
            0 ''chat-2'' ''hello'')
     = [(2, ''hello'')]"
  by (simp add: leaked_receive_def subscribe_def disconnect_def socket_connect_def connect_def
        new_WebSocketService_def io_def Let_def)

text \<open>
  C2, amended. \<open>disconnect()\<close> on a service that holds a socket clears every
  subscription and drops that socket: after the next successful \<open>connect\<close> the map of
  callbacks is empty and the new socket has no handlers, so a message arriving on the
  new socket calls nothing until the caller subscribes again. The sockets that earlier
  \<open>connect\<close> calls left open are not touched: a message arriving on one of them still
  calls the handlers registered on that socket. A subscription made while the service
  holds no socket survives \<open>disconnect()\<close> (which does nothing then) and the next
  successful \<open>connect\<close>: its callback is still registered and a message arriving on
  the new socket on its channel is delivered to it.
\<close>

theorem subscriptions_across_reconnect:
  "(socket ws = Some s
      \<longrightarrow> callbacks (socket_connect (connect (disconnect ws) token)) = Map.empty
        \<and> socket (socket_connect (connect (disconnect ws) token))
            = Some \<lparr>connected = True, listeners = [], emitted = []\<rparr>
        \<and> leaked (socket_connect (connect (disconnect ws) token)) = leaked ws
        \<and> calls (receive (socket_connect (connect (disconnect ws) token)) channel msg) = calls ws
        \<and> (k < length (leaked ws) \<and> connected (leaked ws ! k)
             \<longrightarrow> calls (leaked_receive (socket_connect (connect (disconnect ws) token)) k channel msg)
                 = calls ws @ map (\<lambda>l. (snd l, msg))
                                (filter (\<lambda>l. fst l = channel) (listeners (leaked ws ! k)))))
   \<and> (socket ws' = None \<and> callbacks ws' channel = Some cb
      \<longrightarrow> callbacks (socket_connect (connect (disconnect ws') token)) channel = Some cb
        \<and> calls (receive (socket_connect (connect (disconnect ws') token)) channel msg)
            = calls ws' @ [(cb, msg)])"
  by (simp add: receive_def leaked_receive_def disconnect_def socket_connect_def connect_def io_def)

theorem subscriptions_across_reconnect_witness:
  "socket (socket_connect (connect
             (subscribe (socket_connect (connect new_WebSocketService ''token'')) ''chat-2'' 2)
             ''token''))
     = Some \<lparr>connected = True, listeners = [], emitted = []\<rparr>
   \<and> leaked (socket_connect (connect
             (subscribe (socket_connect (connect new_WebSocketService ''token'')) ''chat-2'' 2)
             ''token''))
     = [\<lparr>connected = True, listeners = [(''chat-2'', 2)], emitted = []\<rparr>]
   \<and> calls (receive (socket_connect (connect (disconnect
         (socket_connect (connect
             (subscribe (socket_connect (connect new_WebSocketService ''token'')) ''chat-2'' 2)
             ''token''))) ''token'')) ''chat-2'' ''hello'') = []
   \<and> calls (leaked_receive (socket_connect (connect (disconnect
         (socket_connect (connect
             (subscribe (socket_connect (connect new_WebSocketService ''token'')) ''chat-2'' 2)
             ''token''))) ''token'')) 0 ''chat-2'' ''hello'') = [(2, ''hello'')]
   \<and> socket (subscribe new_WebSocketService ''chat-2'' 2) = None
   \<and> callbacks (subscribe new_WebSocketService ''chat-2'' 2) ''chat-2'' = Some 2
   \<and> calls (receive (socket_connect (connect (disconnect
         (subscribe new_WebSocketService ''chat-2'' 2)) ''token'')) ''chat-2'' ''hello'')
       = [(2, ''hello'')]"
  using subscriptions_across_reconnect
          [where ws = "socket_connect (connect
             (subscribe (socket_connect (connect new_WebSocketService ''token'')) ''chat-2'' 2)
             ''token'')"
             and s = "\<lparr>connected = True, listeners = [], emitted = []\<rparr>" and k = 0
             and ws' = "subscribe new_WebSocketService ''chat-2'' 2" and cb = 2
             and token = "''token''" and channel = "''chat-2''" and msg = "''hello''"]
  by (simp add: subscribe_def socket_connect_def connect_def disconnect_def receive_def
        leaked_receive_def new_WebSocketService_def io_def Let_def)

subsection \<open>\<open>getById\<close> on the two backends\<close>

text \<open>
  C4 as stated fails for the Firebase backend: \<open>FirestoreService.getById\<close> throws for
  every identifier, also for one that does not exist.
\<close>

theorem Firestore_getById_throws:
  "Firestore_getById ''posts'' ''no-such-id'' = Inl (Error ''Firestore getById not implemented'')
   \<and> Firestore_getById ''posts'' ''no-such-id'' \<noteq> Inr None"
  by (simp add: Firestore_getById_def)

text \<open>What \<open>getById\<close> makes of the server's answer when the interceptor stays out.\<close>

lemma getById_found:
  assumes "srv (wire st) (onRequest st (getById_request c i)) = Response status d"
    and "200 \<le> status \<and> status < 300"
  shows "getById (Suc k) srv st c i =
           Some (Inr (Some d), st\<lparr>wire := wire st @ [onRequest st (getById_request c i)]\<rparr>)"
  using assms by (simp add: getById_def Let_def)

lemma getById_404:
  assumes "srv (wire st) (onRequest st (getById_request c i)) = Response 404 d"
  shows "getById (Suc (Suc k)) srv st c i =
           Some (Inr None, st\<lparr>wire := wire st @ [onRequest st (getById_request c i)]\<rparr>)"
  using assms by (simp add: getById_def Let_def)

lemma getById_other_failure:
  assumes "srv (wire st) (onRequest st (getById_request c i)) = out"
    and "rejected out"
    and "outcome_status out \<noteq> Some 404"
    and "outcome_status out \<noteq> Some 401 \<or> \<not> truthy (refreshTokenValue st)"
  shows "\<exists>e. getById (Suc (Suc k)) srv st c i =
               Some (Inl e, st\<lparr>wire := wire st @ [onRequest st (getById_request c i)]\<rparr>)
             \<and> response_status e = outcome_status out"
proof -
  from assms(1,2,4)
  have "\<exists>e. apiClient (Suc (Suc k)) srv st (getById_request c i) =
               Some (Inl e, st\<lparr>wire := wire st @ [onRequest st (getById_request c i)]\<rparr>)
             \<and> response_status e = outcome_status out"
    by (intro apiClient_rejected_as_is) simp_all
  then obtain e where
    "apiClient (Suc (Suc k)) srv st (getById_request c i) =
       Some (Inl e, st\<lparr>wire := wire st @ [onRequest st (getById_request c i)]\<rparr>)"
    "response_status e = outcome_status out"
    by (elim exE conjE)
  with assms(3) show ?thesis
    by (simp add: getById_def del: apiClient.simps)
qed

text \<open>
  The same after a 401 and a refresh that succeeded: the answer to the re-issued
  request decides.
\<close>

lemma getById_after_refresh:
  assumes "srv (wire st) (onRequest st (getById_request c i)) = Response 401 d"
    and "truthy (refreshTokenValue st)"
    and "refreshToken (Suc (Suc m)) srv (st\<lparr>wire := wire st @ [onRequest st (getById_request c i)]\<rparr>)
           (template (refreshTokenValue st)) = Some (Inr d', st_r)"
    and "reissued = (onRequest st (getById_request c i))
           \<lparr>retry := True, Authorization := Some (''Bearer '' @ template (d_accessToken d'))\<rparr>"
    and "srv (wire st_r) (onRequest st_r reissued) = out"
  shows "(\<forall>status d2. out = Response status d2 \<and> 200 \<le> status \<and> status < 300 \<longrightarrow>
            getById (Suc (Suc (Suc (Suc m)))) srv st c i =
              Some (Inr (Some d2), st_r\<lparr>wire := wire st_r @ [onRequest st_r reissued]\<rparr>))
       \<and> (outcome_status out = Some 404 \<longrightarrow>
            getById (Suc (Suc (Suc (Suc m)))) srv st c i =
              Some (Inr None, st_r\<lparr>wire := wire st_r @ [onRequest st_r reissued]\<rparr>))
       \<and> (rejected out \<and> outcome_status out \<noteq> Some 404 \<longrightarrow>
            (\<exists>e. getById (Suc (Suc (Suc (Suc m)))) srv st c i =
                    Some (Inl e, st_r\<lparr>wire := wire st_r @ [onRequest st_r reissued]\<rparr>)
                  \<and> response_status e = outcome_status out))"
proof -
  have unmarked: "\<not> retry (getById_request c i)"
    by (simp add: getById_request_def)
  have "apiClient (Suc (Suc (Suc (Suc m)))) srv st (getById_request c i) =
          Some (send_once srv st_r reissued)"
    unfolding assms(4) using unmarked assms(1,2,3) by (rule apiClient_reissue)
  then have "getById (Suc (Suc (Suc (Suc m)))) srv st c i =
          (case send_once srv st_r reissued of
             (Inr d2, st1) \<Rightarrow> Some (Inr (Some d2), st1)
           | (Inl e, st1) \<Rightarrow>
               if response_status e = Some 404 then Some (Inr None, st1) else Some (Inl e, st1))"
    by (simp add: getById_def del: apiClient.simps split: prod.splits sum.splits)
  with assms(5) show ?thesis
    by (cases out) (auto simp add: send_once_def Let_def)
qed


text \<open>
  C4, amended. On the REST custom backend, when the server answers the request with 404,
  \<open>getById\<close> returns \<open>null\<close> and does not throw; when the server answers with any
  other failure that the 401 interceptor does not take up (no response, or a status
  outside 200..299 other than 404, and other than 401 unless no refresh token is
  stored), \<open>getById\<close> throws the error of that answer. After a 401 and a refresh that
  succeeded, the answer to the re-issued request decides in the same way: 404 gives
  \<open>null\<close>, any other failure is thrown. On the Firebase backend \<open>getById\<close> is not
  implemented and throws for every identifier.
\<close>

theorem getById_absent_only_on_custom_404:
  "(srv (wire st) (onRequest st (getById_request c i)) = Response 404 d
      \<longrightarrow> getById (Suc (Suc k)) srv st c i =
            Some (Inr None, st\<lparr>wire := wire st @ [onRequest st (getById_request c i)]\<rparr>))
   \<and> (rejected (srv1 (wire st1) (onRequest st1 (getById_request c i)))
        \<and> outcome_status (srv1 (wire st1) (onRequest st1 (getById_request c i))) \<noteq> Some 404
        \<and> (outcome_status (srv1 (wire st1) (onRequest st1 (getById_request c i))) \<noteq> Some 401
             \<or> \<not> truthy (refreshTokenValue st1))
      \<longrightarrow> (\<exists>e. getById (Suc (Suc k)) srv1 st1 c i =
                  Some (Inl e, st1\<lparr>wire := wire st1 @ [onRequest st1 (getById_request c i)]\<rparr>)
                \<and> response_status e
                    = outcome_status (srv1 (wire st1) (onRequest st1 (getById_request c i)))))
   \<and> (srv2 (wire st2) (onRequest st2 (getById_request c i)) = Response 401 d1
        \<and> truthy (refreshTokenValue st2)
        \<and> refreshToken (Suc (Suc m)) srv2
              (st2\<lparr>wire := wire st2 @ [onRequest st2 (getById_request c i)]\<rparr>)
              (template (refreshTokenValue st2)) = Some (Inr d', st_r)
        \<and> reissued = (onRequest st2 (getById_request c i))
              \<lparr>retry := True, Authorization := Some (''Bearer '' @ template (d_accessToken d'))\<rparr>
      \<longrightarrow> (outcome_status (srv2 (wire st_r) (onRequest st_r reissued)) = Some 404
             \<longrightarrow> getById (Suc (Suc (Suc (Suc m)))) srv2 st2 c i =
                   Some (Inr None, st_r\<lparr>wire := wire st_r @ [onRequest st_r reissued]\<rparr>))
        \<and> (rejected (srv2 (wire st_r) (onRequest st_r reissued))
             \<and> outcome_status (srv2 (wire st_r) (onRequest st_r reissued)) \<noteq> Some 404
             \<longrightarrow> (\<exists>e. getById (Suc (Suc (Suc (Suc m)))) srv2 st2 c i =
                         Some (Inl e, st_r\<lparr>wire := wire st_r @ [onRequest st_r reissued]\<rparr>)
                       \<and> response_status e
                           = outcome_status (srv2 (wire st_r) (onRequest st_r reissued)))))
   \<and> Firestore_getById c i = Inl (Error ''Firestore getById not implemented'')"
proof (intro conjI impI)
  assume "srv (wire st) (onRequest st (getById_request c i)) = Response 404 d"
  then show "getById (Suc (Suc k)) srv st c i =
               Some (Inr None, st\<lparr>wire := wire st @ [onRequest st (getById_request c i)]\<rparr>)"
    by (rule getById_404)
next
  let ?out = "srv1 (wire st1) (onRequest st1 (getById_request c i))"
  assume "rejected ?out \<and> outcome_status ?out \<noteq> Some 404
            \<and> (outcome_status ?out \<noteq> Some 401 \<or> \<not> truthy (refreshTokenValue st1))"
  then show "\<exists>e. getById (Suc (Suc k)) srv1 st1 c i =
                  Some (Inl e, st1\<lparr>wire := wire st1 @ [onRequest st1 (getById_request c i)]\<rparr>)
                \<and> response_status e = outcome_status ?out"
    by (intro getById_other_failure) simp_all
next
  assume a: "srv2 (wire st2) (onRequest st2 (getById_request c i)) = Response 401 d1
        \<and> truthy (refreshTokenValue st2)
        \<and> refreshToken (Suc (Suc m)) srv2
              (st2\<lparr>wire := wire st2 @ [onRequest st2 (getById_request c i)]\<rparr>)
              (template (refreshTokenValue st2)) = Some (Inr d', st_r)
        \<and> reissued = (onRequest st2 (getById_request c i))
              \<lparr>retry := True, Authorization := Some (''Bearer '' @ template (d_accessToken d'))\<rparr>"
  let ?out = "srv2 (wire st_r) (onRequest st_r reissued)"
  note after = getById_after_refresh [where srv = srv2 and st = st2 and c = c and i = i
      and d = d1 and m = m and d' = d' and st_r = st_r and reissued = reissued and out = ?out]
  {
    assume "outcome_status ?out = Some 404"
    with a after show "getById (Suc (Suc (Suc (Suc m)))) srv2 st2 c i =
                   Some (Inr None, st_r\<lparr>wire := wire st_r @ [onRequest st_r reissued]\<rparr>)"
      by simp
  next
    assume "rejected ?out \<and> outcome_status ?out \<noteq> Some 404"
    with a after show "\<exists>e. getById (Suc (Suc (Suc (Suc m)))) srv2 st2 c i =
                         Some (Inl e, st_r\<lparr>wire := wire st_r @ [onRequest st_r reissued]\<rparr>)
                       \<and> response_status e = outcome_status ?out"
      by simp
  }
next
  show "Firestore_getById c i = Inl (Error ''Firestore getById not implemented'')"
    by (simp add: Firestore_getById_def)
qed


theorem getById_absent_only_on_custom_404_witness:
  "getById 2 (srv_status 404) st_logged_in ''posts'' ''p1'' =
     Some (Inr None,
           st_logged_in\<lparr>wire := [(getById_request ''posts'' ''p1'')\<lparr>Authorization := Some ''Bearer access-0''\<rparr>]\<rparr>)
   \<and> (\<exists>e. getById 2 (srv_status 500) st_logged_in ''posts'' ''p1'' =
              Some (Inl e,
                    st_logged_in\<lparr>wire := [(getById_request ''posts'' ''p1'')\<lparr>Authorization := Some ''Bearer access-0''\<rparr>]\<rparr>)
            \<and> response_status e = Some 500)
   \<and> getById 4 srv_expired_then_missing st_logged_in ''posts'' ''p1'' =
       Some (Inr None,
             \<lparr>accessToken = Some ''access-1'', refreshTokenValue = Some ''refresh-1'',
              wire = [(getById_request ''posts'' ''p1'')\<lparr>Authorization := Some ''Bearer access-0''\<rparr>,
                      (refresh_request ''refresh-0'')\<lparr>Authorization := Some ''Bearer access-0''\<rparr>,
                      (getById_request ''posts'' ''p1'')
                        \<lparr>retry := True, Authorization := Some ''Bearer access-1''\<rparr>]\<rparr>)
   \<and> (\<exists>e. getById 4 srv_wrong_code st_logged_in ''posts'' ''p1'' =
              Some (Inl e,
                    \<lparr>accessToken = Some ''access-1'', refreshTokenValue = Some ''refresh-1'',
                     wire = [(getById_request ''posts'' ''p1'')\<lparr>Authorization := Some ''Bearer access-0''\<rparr>,
                             (refresh_request ''refresh-0'')\<lparr>Authorization := Some ''Bearer access-0''\<rparr>,
                             (getById_request ''posts'' ''p1'')
                               \<lparr>retry := True, Authorization := Some ''Bearer access-1''\<rparr>]\<rparr>)
            \<and> response_status e = Some 400)
   \<and> Firestore_getById ''posts'' ''p1'' = Inl (Error ''Firestore getById not implemented'')"
proof -
  let ?g0 = "(getById_request ''posts'' ''p1'')\<lparr>Authorization := Some ''Bearer access-0''\<rparr>"
  let ?r0 = "(refresh_request ''refresh-0'')\<lparr>Authorization := Some ''Bearer access-0''\<rparr>"
  let ?g1 = "(getById_request ''posts'' ''p1'')\<lparr>retry := True, Authorization := Some ''Bearer access-1''\<rparr>"
  let ?st_r = "\<lparr>accessToken = Some ''access-1'', refreshTokenValue = Some ''refresh-1'',
                wire = [?g0, ?r0]\<rparr>"
  have cfg: "onRequest st_logged_in (getById_request ''posts'' ''p1'') = ?g0"
    by (simp add: onRequest_def st_logged_in_def Let_def)
  have cfg_r: "onRequest ?st_r ?g1 = ?g1"
    by (simp add: onRequest_def Let_def)
  have w: "wire st_logged_in = []" and rt: "refreshTokenValue st_logged_in = Some ''refresh-0''"
    by (simp_all add: st_logged_in_def)
  have ref1: "refreshToken 2 srv_expired_then_missing (st_logged_in\<lparr>wire := [?g0]\<rparr>) ''refresh-0''
                = Some (Inr (token_pair ''access-1'' ''refresh-1''), ?st_r)"
    by (simp add: eval_nat_numeral srv_expired_then_missing_def st_logged_in_def onRequest_def
          Let_def refresh_request_def token_pair_def)
  have ref2: "refreshToken 2 srv_wrong_code (st_logged_in\<lparr>wire := [?g0]\<rparr>) ''refresh-0''
                = Some (Inr (token_pair ''access-1'' ''refresh-1''), ?st_r)"
    by (simp add: eval_nat_numeral srv_wrong_code_def st_logged_in_def onRequest_def
          Let_def refresh_request_def token_pair_def)
  have g1: "?g1 = ?g0\<lparr>retry := True,
              Authorization := Some (''Bearer '' @ template (d_accessToken (token_pair ''access-1'' ''refresh-1'')))\<rparr>"
    by (simp add: token_pair_def)
  have url: "url ?g1 \<noteq> ''/auth/refresh''" and url0: "url ?g0 \<noteq> ''/auth/refresh''"
    by (simp_all add: getById_request_def)
  note thm1 = getById_absent_only_on_custom_404
      [where srv = "srv_status 404" and st = st_logged_in and c = "''posts''" and i = "''p1''"
         and d = no_fields and k = 0
         and ?srv1.0 = "srv_status 500" and ?st1.0 = st_logged_in
         and ?srv2.0 = srv_expired_then_missing and ?st2.0 = st_logged_in and ?d1.0 = no_fields
         and m = 0 and d' = "token_pair ''access-1'' ''refresh-1''" and st_r = ?st_r
         and reissued = ?g1]
  note thm2 = getById_absent_only_on_custom_404
      [where srv = "srv_status 404" and st = st_logged_in and c = "''posts''" and i = "''p1''"
         and d = no_fields and k = 0
         and ?srv1.0 = "srv_status 500" and ?st1.0 = st_logged_in
         and ?srv2.0 = srv_wrong_code and ?st2.0 = st_logged_in and ?d1.0 = no_fields
         and m = 0 and d' = "token_pair ''access-1'' ''refresh-1''" and st_r = ?st_r
         and reissued = ?g1]
  have two: "(2::nat) = Suc (Suc 0)" and four: "(4::nat) = Suc (Suc (Suc (Suc 0)))"
    by simp_all
  have a: "getById 2 (srv_status 404) st_logged_in ''posts'' ''p1'' = Some (Inr None, st_logged_in\<lparr>wire := [?g0]\<rparr>)"
    unfolding two using thm1 [THEN conjunct1] by (simp add: cfg w srv_status_def)
  have b: "\<exists>e. getById 2 (srv_status 500) st_logged_in ''posts'' ''p1'' =
              Some (Inl e, st_logged_in\<lparr>wire := [?g0]\<rparr>) \<and> response_status e = Some 500"
    unfolding two using thm1 [THEN conjunct2, THEN conjunct1] by (simp add: cfg w srv_status_def)
  have c: "getById 4 srv_expired_then_missing st_logged_in ''posts'' ''p1'' = Some (Inr None, ?st_r\<lparr>wire := [?g0, ?r0, ?g1]\<rparr>)"
    unfolding four
    using thm1 [THEN conjunct2, THEN conjunct2, THEN conjunct1] ref1 [unfolded two] url
    by (simp add: cfg cfg_r w rt srv_expired_then_missing_def token_pair_def
          del: apiClient.simps refreshToken.simps)
  have d: "\<exists>e. getById 4 srv_wrong_code st_logged_in ''posts'' ''p1'' =
              Some (Inl e, ?st_r\<lparr>wire := [?g0, ?r0, ?g1]\<rparr>) \<and> response_status e = Some 400"
    unfolding four
    using thm2 [THEN conjunct2, THEN conjunct2, THEN conjunct1] ref2 [unfolded two] url
    by (simp add: cfg cfg_r w rt srv_wrong_code_def token_pair_def
          del: apiClient.simps refreshToken.simps)
  from a b c d show ?thesis
    by (simp add: Firestore_getById_def)
qed

text \<open>
  The path that is left out above: the answer to the request is a 401, a refresh token
  is stored, and the refresh fails. The \<open>catch\<close> of \<open>getById\<close> then sees the error of the
  refresh request. Here the server answers the refresh request with 404: the session
  is logged out and \<open>getById\<close> returns \<open>null\<close>.
\<close>

lemma getById_null_when_refresh_answered_404:
  "getById 6 srv_refresh_gone st_logged_in ''posts'' ''p1'' =
     Some (Inr None,
           \<lparr>accessToken = None, refreshTokenValue = None,
            wire = [(getById_request ''posts'' ''p1'')\<lparr>Authorization := Some ''Bearer access-0''\<rparr>,
                    (refresh_request ''refresh-0'')\<lparr>Authorization := Some ''Bearer access-0''\<rparr>,
                    logout_request\<lparr>Authorization := Some ''Bearer access-0''\<rparr>]\<rparr>)"
  by (simp add: getById_def eval_nat_numeral srv_refresh_gone_def st_logged_in_def onRequest_def
        Let_def getById_request_def refresh_request_def logout_request_def no_fields_def)

subsection \<open>Every request is issued at most twice\<close>

lemma step_task_budget:
  assumes "step_task srv st t = (st1, t1)"
  shows "own_call t + budget t1 \<le> budget t"
proof (cases "control t")
  case (Calling q)
  with assms show ?thesis
    by (auto simp add: step_task_def budget_def Let_def retry_onRequest)
next
  case (Waiting config out)
  with assms show ?thesis
    by (cases out) (auto simp add: step_task_def reject_def budget_def Let_def split: if_splits)
next
  case (Returning r)
  show ?thesis
  proof (cases "stack t")
    case Nil
    with Returning assms show ?thesis
      by (auto simp add: step_task_def budget_def)
  next
    case (Cons f fs)
    with Returning assms show ?thesis
      by (cases f; cases r; cases "fs = []")
         (auto simp add: step_task_def budget_def split: frame.splits)
  qed
qed

lemma own_sends_le_budget: "own_sends srv k (st, t) \<le> budget t"
proof (induction k arbitrary: st t)
  case 0
  show ?case by simp
next
  case (Suc k)
  obtain st1 t1 where step: "step_task srv st t = (st1, t1)"
    by (cases "step_task srv st t")
  from Suc.IH [of st1 t1] step_task_budget [OF step] step show ?case
    by simp
qed


text \<open>
  C5. For every request, every server and every state of the token store: however many
  steps the call takes, the request is handed to the axios instance at most twice,
  once when it is issued and at most once more by the response interceptor. A request
  that is already marked as retried is handed over at most once: it is sent exactly
  once and its outcome is returned as it is, so when the answer is a second 401 (or any
  other failure) the caller gets that error, the token store is unchanged and nothing
  else is sent, neither a refresh nor another retry. The one re-issue of an unmarked
  request, after a 401 and a successful refresh, is of the marked request, and the
  outcome of that one send is the outcome of the whole call.
\<close>

theorem request_is_issued_at_most_twice:
  "own_sends srv k (st, \<lparr>control = Calling req, stack = [], sent = xs\<rparr>) \<le> 2
   \<and> (retry req \<longrightarrow>
         own_sends srv k (st, \<lparr>control = Calling req, stack = [], sent = xs\<rparr>) \<le> 1
         \<and> apiClient (Suc (Suc n)) srv st req = Some (send_once srv st req))
   \<and> (\<not> retry req' \<and> srv' (wire st') (onRequest st' req') = Response 401 d
        \<and> truthy (refreshTokenValue st')
        \<and> refreshToken (Suc (Suc m)) srv' (st'\<lparr>wire := wire st' @ [onRequest st' req']\<rparr>)
              (template (refreshTokenValue st')) = Some (Inr d', st_r)
      \<longrightarrow> apiClient (Suc (Suc (Suc (Suc m)))) srv' st' req' =
            Some (send_once srv' st_r
                   ((onRequest st' req')\<lparr>retry := True,
                      Authorization := Some (''Bearer '' @ template (d_accessToken d'))\<rparr>)))"
proof (intro conjI impI)
  let ?t = "\<lparr>control = Calling req, stack = [], sent = xs\<rparr>"
  have b: "budget ?t = (if retry req then 1 else 2)"
    by (simp add: budget_def)
  from own_sends_le_budget [of srv k st ?t] b
  show "own_sends srv k (st, ?t) \<le> 2"
    by (simp split: if_splits)
  assume "retry req"
  with own_sends_le_budget [of srv k st ?t] b
  show "own_sends srv k (st, ?t) \<le> 1"
    by simp
  from \<open>retry req\<close> show "apiClient (Suc (Suc n)) srv st req = Some (send_once srv st req)"
    by (rule apiClient_marked)
next
  assume "\<not> retry req' \<and> srv' (wire st') (onRequest st' req') = Response 401 d
        \<and> truthy (refreshTokenValue st')
        \<and> refreshToken (Suc (Suc m)) srv' (st'\<lparr>wire := wire st' @ [onRequest st' req']\<rparr>)
              (template (refreshTokenValue st')) = Some (Inr d', st_r)"
  then show "apiClient (Suc (Suc (Suc (Suc m)))) srv' st' req' =
            Some (send_once srv' st_r
                   ((onRequest st' req')\<lparr>retry := True,
                      Authorization := Some (''Bearer '' @ template (d_accessToken d'))\<rparr>))"
    by (intro apiClient_reissue) simp_all
qed

theorem request_is_issued_at_most_twice_witness:
  "own_sends srv_wrong_code 8
     (st_logged_in, \<lparr>control = Calling (getById_request ''posts'' ''p1''), stack = [], sent = []\<rparr>) = 2
   \<and> retry ((getById_request ''posts'' ''p1'')\<lparr>retry := True\<rparr>)
   \<and> own_sends (srv_status 401) 8
       (st_logged_in,
        \<lparr>control = Calling ((getById_request ''posts'' ''p1'')\<lparr>retry := True\<rparr>), stack = [], sent = []\<rparr>) = 1
   \<and> apiClient 2 (srv_status 401) st_logged_in ((getById_request ''posts'' ''p1'')\<lparr>retry := True\<rparr>) =
       Some (Inl (AxiosError (Some (401, no_fields))
                   ((getById_request ''posts'' ''p1'')
                      \<lparr>retry := True, Authorization := Some ''Bearer access-0''\<rparr>)),
             st_logged_in\<lparr>wire := [(getById_request ''posts'' ''p1'')
                      \<lparr>retry := True, Authorization := Some ''Bearer access-0''\<rparr>]\<rparr>)
   \<and> \<not> retry (getById_request ''posts'' ''p1'')
   \<and> truthy (refreshTokenValue st_logged_in)
   \<and> apiClient 4 srv_wrong_code st_logged_in (getById_request ''posts'' ''p1'') =
       Some (Inl (AxiosError (Some (400, no_fields))
                   ((getById_request ''posts'' ''p1'')
                      \<lparr>retry := True, Authorization := Some ''Bearer access-1''\<rparr>)),
             \<lparr>accessToken = Some ''access-1'', refreshTokenValue = Some ''refresh-1'',
              wire = [(getById_request ''posts'' ''p1'')\<lparr>Authorization := Some ''Bearer access-0''\<rparr>,
                      (refresh_request ''refresh-0'')\<lparr>Authorization := Some ''Bearer access-0''\<rparr>,
                      (getById_request ''posts'' ''p1'')
                        \<lparr>retry := True, Authorization := Some ''Bearer access-1''\<rparr>]\<rparr>)"
proof -
  have tight: "own_sends srv_wrong_code 8
     (st_logged_in, \<lparr>control = Calling (getById_request ''posts'' ''p1''), stack = [], sent = []\<rparr>) = 2"
    by (simp add: eval_nat_numeral step_task_def reject_def srv_wrong_code_def st_logged_in_def
          onRequest_def Let_def getById_request_def refresh_request_def token_pair_def no_fields_def)
  have once: "own_sends (srv_status 401) 8
       (st_logged_in,
        \<lparr>control = Calling ((getById_request ''posts'' ''p1'')\<lparr>retry := True\<rparr>), stack = [], sent = []\<rparr>) = 1"
    by (simp add: eval_nat_numeral step_task_def reject_def srv_status_def st_logged_in_def
          onRequest_def Let_def getById_request_def no_fields_def)
  from tight once show ?thesis
    using request_is_issued_at_most_twice
          [where req = "(getById_request ''posts'' ''p1'')\<lparr>retry := True\<rparr>" and n = 0
             and srv = "srv_status 401" and st = st_logged_in and k = 8 and xs = "[]"
             and req' = "getById_request ''posts'' ''p1''" and m = 0
             and srv' = srv_wrong_code and st' = st_logged_in and d = no_fields
             and d' = "token_pair ''access-1'' ''refresh-1''"
             and st_r = "\<lparr>accessToken = Some ''access-1'', refreshTokenValue = Some ''refresh-1'',
              wire = [(getById_request ''posts'' ''p1'')\<lparr>Authorization := Some ''Bearer access-0''\<rparr>,
                      (refresh_request ''refresh-0'')\<lparr>Authorization := Some ''Bearer access-0''\<rparr>]\<rparr>"]
    by (simp add: eval_nat_numeral send_once_def srv_status_def srv_wrong_code_def st_logged_in_def
        onRequest_def Let_def getById_request_def refresh_request_def token_pair_def no_fields_def)
qed

text \<open>
  A call of the instance that is made while other functions await (the post of
  \<open>refreshToken\<close> or of \<open>logout\<close>) takes the same steps as a call made alone: until it
  has settled, a step neither reads nor changes the frames below it. So the bound
  holds for these requests too, each counted from its own call.
\<close>

lemma step_task_frame:
  assumes "step_task srv st t = (st1, t1)" and "\<not> finished t"
  shows "step_task srv st (t\<lparr>stack := stack t @ base\<rparr>) = (st1, t1\<lparr>stack := stack t1 @ base\<rparr>)"
proof (cases "control t")
  case (Calling q)
  with assms show ?thesis
    by (auto simp add: step_task_def Let_def)
next
  case (Waiting config out)
  with assms show ?thesis
    by (cases out) (auto simp add: step_task_def reject_def Let_def split: if_splits)
next
  case (Returning r)
  with assms(2) obtain f fs where "stack t = f # fs"
    by (cases "stack t") simp_all
  with Returning assms(1) show ?thesis
    by (cases f; cases r) (auto simp add: step_task_def)
qed

subsection \<open>Concurrent 401 answers\<close>








lemma run_Cons: "run srv sys (i # schedule) = run srv (step srv sys i) schedule"
  by (simp add: run_def)













lemma run_Nil: "run srv sys [] = sys"
  by (simp add: run_def)


lemma run_one_after_the_other:
  "run srv_accepts two_pending [0, 0, 0, 0, 0, 0, 0, 1, 1, 1, 1, 1, 1, 1] =
   \<lparr>store = \<lparr>accessToken = Some ''access-1'', refreshTokenValue = Some ''refresh-1'',
        wire = [(getById_request ''posts'' ''p1'')\<lparr>Authorization := Some ''Bearer access-0''\<rparr>,
                (getById_request ''posts'' ''p2'')\<lparr>Authorization := Some ''Bearer access-0''\<rparr>,
                (refresh_request ''refresh-0'')\<lparr>Authorization := Some ''Bearer access-0''\<rparr>,
                (getById_request ''posts'' ''p1'')\<lparr>retry := True, Authorization := Some ''Bearer access-1''\<rparr>,
                (refresh_request ''refresh-1'')\<lparr>Authorization := Some ''Bearer access-1''\<rparr>,
                (getById_request ''posts'' ''p2'')\<lparr>retry := True, Authorization := Some ''Bearer access-1''\<rparr>]\<rparr>,
     tasks = [\<lparr>control = Returning (Inr (token_pair ''access-1'' ''refresh-1'')), stack = [],
               sent = [(getById_request ''posts'' ''p1'')\<lparr>Authorization := Some ''Bearer access-0''\<rparr>,
                       (refresh_request ''refresh-0'')\<lparr>Authorization := Some ''Bearer access-0''\<rparr>,
                       (getById_request ''posts'' ''p1'')\<lparr>retry := True, Authorization := Some ''Bearer access-1''\<rparr>]\<rparr>,
              \<lparr>control = Returning (Inr (token_pair ''access-1'' ''refresh-1'')), stack = [],
               sent = [(getById_request ''posts'' ''p2'')\<lparr>Authorization := Some ''Bearer access-0''\<rparr>,
                       (refresh_request ''refresh-1'')\<lparr>Authorization := Some ''Bearer access-1''\<rparr>,
                       (getById_request ''posts'' ''p2'')\<lparr>retry := True, Authorization := Some ''Bearer access-1''\<rparr>]\<rparr>]\<rparr>"
  by (simp add: run_Cons run_Nil step_def step_task_def reject_def two_pending_def answered_401_def
        srv_accepts_def st_logged_in_def onRequest_def Let_def token_pair_def no_fields_def
        getById_request_def refresh_request_def)





text \<open>
  Concurrent 401 answers on a server where a refresh token can be used once. Both
  handlers read the same stored refresh token. The refresh of the first call is
  accepted and its request is retried and answered; the refresh of the second call is
  rejected, its handler logs out, and the call rejects with the refresh error. The
  calls do not fail together, and the token store ends up empty although the first
  call went through.
\<close>

lemma one_call_settles_one_logs_out:
  "map control (tasks (run srv_single_use two_pending
                        [0, 1, 0, 1, 0, 1, 0, 1, 0, 1, 0, 1, 0, 1, 1, 1]))
     = [Returning (Inr no_fields),
        Returning (Inl (AxiosError (Some (403, no_fields))
                     ((refresh_request ''refresh-0'')\<lparr>Authorization := Some ''Bearer access-0''\<rparr>)))]
   \<and> map stack (tasks (run srv_single_use two_pending
                        [0, 1, 0, 1, 0, 1, 0, 1, 0, 1, 0, 1, 0, 1, 1, 1])) = [[], []]
   \<and> accessToken (store (run srv_single_use two_pending
                        [0, 1, 0, 1, 0, 1, 0, 1, 0, 1, 0, 1, 0, 1, 1, 1])) = None
   \<and> refreshTokenValue (store (run srv_single_use two_pending
                        [0, 1, 0, 1, 0, 1, 0, 1, 0, 1, 0, 1, 0, 1, 1, 1])) = None"
  by (simp add: run_Cons run_Nil step_def step_task_def reject_def two_pending_def answered_401_def
        srv_single_use_def is_refresh_def st_logged_in_def onRequest_def Let_def token_pair_def
        no_fields_def getById_request_def refresh_request_def logout_request_def)

end
